theory Spec2Isabelle
  imports Complex_Main
begin

section \<open>Python values, dictionaries and strings\<close>

text \<open>
  The client library \<^verbatim>\<open>sas9api.py\<close> is untyped Python. The values that travel through it
  (query parameters, JSON request bodies, decoded JSON responses) are modelled by one
  datatype. A \<^verbatim>\<open>dict\<close> is an association list in insertion order, with distinct keys.
  A \<^verbatim>\<open>str\<close> is a \<open>string\<close>, one \<open>char\<close> per code point (code points below 256).
\<close>

datatype pyval =
    PNone
  | PBool bool
  | PInt int
  | PFloat real
  | PStr string
  | PList "pyval list"
  | PDict "(string \<times> pyval) list"

type_synonym pydict = "(string \<times> pyval) list"

text \<open>The exceptions that can leave \<^verbatim>\<open>make_request\<close>, and the \<^verbatim>\<open>HTTPError\<close> it catches.\<close>

datatype pyexn =
    HTTPError int
  | JSONDecodeError
  | KeyError string
  | TypeError

text \<open>\<^verbatim>\<open>d[k] = v\<close>: an existing key keeps its position, a new key goes to the end.\<close>

fun setitem :: "pydict \<Rightarrow> string \<Rightarrow> pyval \<Rightarrow> pydict" where
  "setitem [] k v = [(k, v)]"
| "setitem ((k', v') # d) k v = (if k' = k then (k, v) # d else (k', v') # setitem d k v)"

text \<open>
  \<^verbatim>\<open>x[k]\<close> with a string key \<open>k\<close>: a lookup on a dict (\<^verbatim>\<open>KeyError\<close> when the key is
  missing), a \<^verbatim>\<open>TypeError\<close> on every other JSON value.
\<close>

fun getitem :: "pyval \<Rightarrow> string \<Rightarrow> pyexn + pyval" where
  "getitem (PDict d) k = (case map_of d k of None \<Rightarrow> Inl (KeyError k) | Some v \<Rightarrow> Inr v)"
| "getitem PNone k = Inl TypeError"
| "getitem (PBool b) k = Inl TypeError"
| "getitem (PInt i) k = Inl TypeError"
| "getitem (PFloat f) k = Inl TypeError"
| "getitem (PStr s) k = Inl TypeError"
| "getitem (PList xs) k = Inl TypeError"

text \<open>\<^verbatim>\<open>str.isspace\<close> on one code point below 256, \<^verbatim>\<open>str.strip()\<close> and \<^verbatim>\<open>str.endswith\<close>.\<close>

definition isspace :: "char \<Rightarrow> bool" where
  "isspace c = (of_char c \<in> {9, 10, 11, 12, 13, 28, 29, 30, 31, 32, 133, 160 :: nat})"

definition strip :: "string \<Rightarrow> string" where
  "strip s = rev (dropWhile isspace (rev (dropWhile isspace s)))"

definition endswith :: "string \<Rightarrow> string \<Rightarrow> bool" where
  "endswith s suffix =
     (length suffix \<le> length s \<and> drop (length s - length suffix) s = suffix)"

section \<open>The URL assembler\<close>

text \<open>
  \<^verbatim>\<open>
  def assemble_url(url, endpoint):
      if url.strip().endswith("/"):
          url = f"{url}{endpoint}"
      else:
          url = f"{url}/{endpoint}"
      return url
  \<close>
\<close>

definition assemble_url :: "string \<Rightarrow> string \<Rightarrow> string" where
  "assemble_url url endpoint =
     (if endswith (strip url) ''/'' then url @ endpoint else url @ ''/'' @ endpoint)"

section \<open>The request executor\<close>

text \<open>
  One call of \<^verbatim>\<open>requests.request(method, url=url, params=..., data=..., json=...)\<close> is a
  \<open>request\<close>. The HTTP library and the server behind it are the environment: a
  \<open>transport\<close> maps the request to what the library does with it, either raising an
  exception of its own (connection, DNS, TLS, timeout: no response received; the string
  is the exception's text) or returning a response. Of a response the client reads the
  status code and \<^verbatim>\<open>response.json()\<close>, which is \<open>None\<close> here when the body is not valid
  JSON (\<^verbatim>\<open>json()\<close> raises) and the decoded value otherwise.
\<close>

record request =
  req_method :: string
  req_url :: string
  req_params :: pydict
  req_data :: string
  req_json :: pyval

record response =
  status_code :: int
  json_body :: "pyval option"

datatype reply = Raises string | Responds response

type_synonym transport = "request \<Rightarrow> reply"

text \<open>
  \<^verbatim>\<open>Response.raise_for_status()\<close> of the HTTP library raises \<^verbatim>\<open>HTTPError\<close> for a status
  code from 400 to 599 and returns for every other one.
\<close>

definition raise_for_status :: "response \<Rightarrow> bool" where
  "raise_for_status r = (400 \<le> status_code r \<and> status_code r < 600)"

definition response_json :: "response \<Rightarrow> pyexn + pyval" where
  "response_json r = (case json_body r of None \<Rightarrow> Inl JSONDecodeError | Some j \<Rightarrow> Inr j)"

text \<open>
  \<^verbatim>\<open>print\<close> writes a line to the console. A line is kept as its pieces: literal text,
  the text of an exception, or the text of a value (\<^verbatim>\<open>str()\<close> of it).
\<close>

datatype piece = Lit string | Of_exn pyexn | Of_val pyval

type_synonym line = "piece list"

text \<open>
  The two default objects of \<^verbatim>\<open>make_request\<close>, \<^verbatim>\<open>initial_params={}\<close> and
  \<^verbatim>\<open>json_data=[]\<close>, are created once, when the function is defined, and shared by every
  call that omits the argument. They are the only objects of the module that outlive a
  call, so they are the store that every call takes and returns.
\<close>

record store =
  dflt_initial_params :: pydict
  dflt_json_data :: pyval

definition init_store :: store where
  "init_store = \<lparr>dflt_initial_params = [], dflt_json_data = PList []\<rparr>"

text \<open>
  What a call does: the requests it sent, the lines it printed, what it returned
  (\<open>Inr\<close>) or raised (\<open>Inl\<close>), and the store it leaves.
\<close>

record run =
  sent :: "request list"
  printed :: "line list"
  result :: "pyexn + pyval"
  store_after :: store

text \<open>Lines printed by an endpoint function before it calls \<^verbatim>\<open>make_request\<close>.\<close>

definition after_prints :: "line list \<Rightarrow> run \<Rightarrow> run" where
  "after_prints ls r = r\<lparr>printed := ls @ printed r\<rparr>"

text \<open>
  \<^verbatim>\<open>
  def make_request(method, url, initial_params={}, data="", json_data=[], only_payload=False):
      try:
          response = requests.request(method, url=url, params=initial_params, data=data, json=json_data)
          # If the response was successful, no Exception will be raised
          response.raise_for_status()
      except HTTPError as http_err:
          print(f'HTTP error occurred: {http_err}')
          print(response.json()['error'])
      except Exception as err:
          print(f'Other error occurred: {err}')
      else:
          print('Success!')
          if only_payload:
              return response.json()["payload"]
          else:
              return response.json()
  \<close>
  An omitted argument is \<open>None\<close> and is read from the store. An exception raised inside
  the \<^verbatim>\<open>except HTTPError\<close> handler or inside the \<^verbatim>\<open>else\<close> block is not caught by the
  sibling handlers: it leaves the function.
\<close>

definition make_request ::
  "transport \<Rightarrow> store \<Rightarrow> string \<Rightarrow> string \<Rightarrow> pydict option \<Rightarrow> string option \<Rightarrow>
   pyval option \<Rightarrow> bool \<Rightarrow> run" where
  "make_request http st method url initial_params data json_data only_payload =
     (let req = \<lparr>req_method = method, req_url = url,
                 req_params = (case initial_params of None \<Rightarrow> dflt_initial_params st | Some p \<Rightarrow> p),
                 req_data = (case data of None \<Rightarrow> '''' | Some d \<Rightarrow> d),
                 req_json = (case json_data of None \<Rightarrow> dflt_json_data st | Some j \<Rightarrow> j)\<rparr>
      in case http req of
           Raises err \<Rightarrow>
             \<lparr>sent = [req], printed = [[Lit ''Other error occurred: '', Lit err]],
              result = Inr PNone, store_after = st\<rparr>
         | Responds response \<Rightarrow>
             if raise_for_status response then
               (let http_err = [Lit ''HTTP error occurred: '', Of_exn (HTTPError (status_code response))]
                in case response_json response of
                     Inl e \<Rightarrow> \<lparr>sent = [req], printed = [http_err], result = Inl e, store_after = st\<rparr>
                   | Inr j \<Rightarrow>
                       (case getitem j ''error'' of
                          Inl e \<Rightarrow> \<lparr>sent = [req], printed = [http_err], result = Inl e, store_after = st\<rparr>
                        | Inr v \<Rightarrow>
                            \<lparr>sent = [req], printed = [http_err, [Of_val v]],
                             result = Inr PNone, store_after = st\<rparr>))
             else if only_payload then
               \<lparr>sent = [req], printed = [[Lit ''Success!'']],
                result = (case response_json response of Inl e \<Rightarrow> Inl e | Inr j \<Rightarrow> getitem j ''payload''),
                store_after = st\<rparr>
             else
               \<lparr>sent = [req], printed = [[Lit ''Success!'']],
                result = response_json response, store_after = st\<rparr>)"

section \<open>The endpoint functions\<close>

text \<open>
  Every endpoint function builds a path and a parameter dict of its own, prints at most
  one notice and returns what \<^verbatim>\<open>make_request\<close> returns. The arguments keep the
  source's names and order, after the transport and the store. An argument that goes
  into a path through an f-string is a \<open>string\<close>; \<^verbatim>\<open>server_name\<close>, which may be
  \<^verbatim>\<open>None\<close>, is a \<open>string option\<close>; an argument that is stored in the parameter dict as
  it is, is a \<open>pyval\<close> (\<open>PNone\<close> when it is \<^verbatim>\<open>None\<close>). The defaults of these functions
  are immutable values, so the caller passes every argument.
\<close>

definition default_server_notice :: line where
  "default_server_notice =
     [Lit (''The default Server Name from the configuration file will be used '' @
           ''because neither 'server_name' nor ('server_url' and 'server_port') are specified!'')]"

definition get_metadata_server_config :: "transport \<Rightarrow> store \<Rightarrow> string \<Rightarrow> bool \<Rightarrow> run" where
  "get_metadata_server_config http st url only_payload =
     (let endpoint = ''sas/''
      in make_request http st ''GET'' (assemble_url url endpoint) None None None only_payload)"

definition get_license_info :: "transport \<Rightarrow> store \<Rightarrow> string \<Rightarrow> bool \<Rightarrow> run" where
  "get_license_info http st url only_payload =
     (let endpoint = ''sas/license''
      in make_request http st ''GET'' (assemble_url url endpoint) None None None only_payload)"

definition get_workspace_server_list ::
  "transport \<Rightarrow> store \<Rightarrow> string \<Rightarrow> pyval \<Rightarrow> bool \<Rightarrow> run" where
  "get_workspace_server_list http st url repository_name only_payload =
     (let endpoint = ''sas/servers'';
          initial_params = [(''repositoryName'', repository_name)]
      in make_request http st ''GET'' (assemble_url url endpoint)
           (Some initial_params) None None only_payload)"

definition get_workspace_server_config ::
  "transport \<Rightarrow> store \<Rightarrow> string \<Rightarrow> string \<Rightarrow> pyval \<Rightarrow> bool \<Rightarrow> run" where
  "get_workspace_server_config http st url server_name repository_name only_payload =
     (let endpoint = ''sas/servers/'' @ server_name;
          initial_params = [(''repositoryName'', repository_name)]
      in make_request http st ''GET'' (assemble_url url endpoint)
           (Some initial_params) None None only_payload)"

definition get_stp_server_list ::
  "transport \<Rightarrow> store \<Rightarrow> string \<Rightarrow> pyval \<Rightarrow> bool \<Rightarrow> run" where
  "get_stp_server_list http st url repository_name only_payload =
     (let endpoint = ''sas/stp'';
          initial_params = [(''repositoryName'', repository_name)]
      in make_request http st ''GET'' (assemble_url url endpoint)
           (Some initial_params) None None only_payload)"

definition get_stp_server_config ::
  "transport \<Rightarrow> store \<Rightarrow> string \<Rightarrow> string \<Rightarrow> pyval \<Rightarrow> bool \<Rightarrow> run" where
  "get_stp_server_config http st url server_name repository_name only_payload =
     (let endpoint = ''sas/stp/'' @ server_name;
          initial_params = [(''repositoryName'', repository_name)]
      in make_request http st ''GET'' (assemble_url url endpoint)
           (Some initial_params) None None only_payload)"

definition execute_command ::
  "transport \<Rightarrow> store \<Rightarrow> string \<Rightarrow> string \<Rightarrow> string option \<Rightarrow> pyval \<Rightarrow> pyval \<Rightarrow> pyval \<Rightarrow>
   bool \<Rightarrow> bool \<Rightarrow> run" where
  "execute_command http st url command server_name repository_name server_url server_port
     log_enabled only_payload =
     (let initial_params =
            (if log_enabled then [(''logEnabled'', PStr ''true'')]
             else [(''logEnabled'', PStr ''false'')]);
          endpoint = ''sas/cmd'';
          (endpoint, initial_params, out) =
            (case server_name of
               Some name \<Rightarrow>
                 (''sas/servers/'' @ name @ ''/cmd'',
                  setitem initial_params ''repositoryName'' repository_name, [])
             | None \<Rightarrow>
                 if server_url \<noteq> PNone \<and> server_port \<noteq> PNone then
                   (endpoint,
                    setitem (setitem initial_params ''serverUrl'' server_url)
                      ''serverPort'' server_port, [])
                 else (endpoint, initial_params, [default_server_notice]))
      in after_prints out
           (make_request http st ''PUT'' (assemble_url url endpoint)
              (Some initial_params) (Some command) None only_payload))"

definition get_user_list ::
  "transport \<Rightarrow> store \<Rightarrow> string \<Rightarrow> pyval \<Rightarrow> bool \<Rightarrow> run" where
  "get_user_list http st url repository_name only_payload =
     (let endpoint = ''sas/meta/users'';
          initial_params = [(''repositoryName'', repository_name)]
      in make_request http st ''GET'' (assemble_url url endpoint)
           (Some initial_params) None None only_payload)"

definition get_configured_user_info ::
  "transport \<Rightarrow> store \<Rightarrow> string \<Rightarrow> pyval \<Rightarrow> bool \<Rightarrow> run" where
  "get_configured_user_info http st url repository_name only_payload =
     (let endpoint = ''sas/user'';
          initial_params = [(''repositoryName'', repository_name)]
      in make_request http st ''GET'' (assemble_url url endpoint)
           (Some initial_params) None None only_payload)"

definition get_user_info ::
  "transport \<Rightarrow> store \<Rightarrow> string \<Rightarrow> string \<Rightarrow> pyval \<Rightarrow> bool \<Rightarrow> run" where
  "get_user_info http st url user_name repository_name only_payload =
     (let endpoint = ''sas/meta/users/'' @ user_name;
          initial_params = [(''repositoryName'', repository_name)]
      in make_request http st ''GET'' (assemble_url url endpoint)
           (Some initial_params) None None only_payload)"

definition get_group_list ::
  "transport \<Rightarrow> store \<Rightarrow> string \<Rightarrow> pyval \<Rightarrow> bool \<Rightarrow> run" where
  "get_group_list http st url repository_name only_payload =
     (let endpoint = ''sas/meta/groups'';
          initial_params = [(''repositoryName'', repository_name)]
      in make_request http st ''GET'' (assemble_url url endpoint)
           (Some initial_params) None None only_payload)"

definition get_group_info ::
  "transport \<Rightarrow> store \<Rightarrow> string \<Rightarrow> string \<Rightarrow> pyval \<Rightarrow> bool \<Rightarrow> run" where
  "get_group_info http st url group_name repository_name only_payload =
     (let endpoint = ''sas/meta/groups/'' @ group_name;
          initial_params = [(''repositoryName'', repository_name)]
      in make_request http st ''GET'' (assemble_url url endpoint)
           (Some initial_params) None None only_payload)"

definition get_role_list ::
  "transport \<Rightarrow> store \<Rightarrow> string \<Rightarrow> pyval \<Rightarrow> bool \<Rightarrow> run" where
  "get_role_list http st url repository_name only_payload =
     (let endpoint = ''sas/meta/roles'';
          initial_params = [(''repositoryName'', repository_name)]
      in make_request http st ''GET'' (assemble_url url endpoint)
           (Some initial_params) None None only_payload)"

definition get_role_info ::
  "transport \<Rightarrow> store \<Rightarrow> string \<Rightarrow> string \<Rightarrow> pyval \<Rightarrow> bool \<Rightarrow> run" where
  "get_role_info http st url role_name repository_name only_payload =
     (let endpoint = ''sas/meta/roles/'' @ role_name;
          initial_params = [(''repositoryName'', repository_name)]
      in make_request http st ''GET'' (assemble_url url endpoint)
           (Some initial_params) None None only_payload)"

definition get_library_list ::
  "transport \<Rightarrow> store \<Rightarrow> string \<Rightarrow> string option \<Rightarrow> pyval \<Rightarrow> pyval \<Rightarrow> pyval \<Rightarrow>
   bool \<Rightarrow> run" where
  "get_library_list http st url server_name repository_name server_url server_port
     only_payload =
     (let initial_params = [];
          endpoint = ''sas/libraries'';
          (endpoint, initial_params, out) =
            (case server_name of
               Some name \<Rightarrow>
                 (''sas/servers/'' @ name @ ''/libraries'',
                  setitem initial_params ''repositoryName'' repository_name, [])
             | None \<Rightarrow>
                 if server_url \<noteq> PNone \<and> server_port \<noteq> PNone then
                   (endpoint,
                    setitem (setitem initial_params ''serverUrl'' server_url)
                      ''serverPort'' server_port, [])
                 else (endpoint, initial_params, [default_server_notice]))
      in after_prints out
           (make_request http st ''GET'' (assemble_url url endpoint)
              (Some initial_params) None None only_payload))"

definition get_library_info ::
  "transport \<Rightarrow> store \<Rightarrow> string \<Rightarrow> string \<Rightarrow> string option \<Rightarrow> pyval \<Rightarrow> pyval \<Rightarrow> pyval \<Rightarrow>
   bool \<Rightarrow> run" where
  "get_library_info http st url library_name server_name repository_name server_url server_port
     only_payload =
     (let initial_params = [];
          endpoint = ''sas/libraries/'' @ library_name;
          (endpoint, initial_params, out) =
            (case server_name of
               Some name \<Rightarrow>
                 (''sas/servers/'' @ name @ ''/libraries/'' @ library_name,
                  setitem initial_params ''repositoryName'' repository_name, [])
             | None \<Rightarrow>
                 if server_url \<noteq> PNone \<and> server_port \<noteq> PNone then
                   (endpoint,
                    setitem (setitem initial_params ''serverUrl'' server_url)
                      ''serverPort'' server_port, [])
                 else (endpoint, initial_params, [default_server_notice]))
      in after_prints out
           (make_request http st ''GET'' (assemble_url url endpoint)
              (Some initial_params) None None only_payload))"

definition create_library ::
  "transport \<Rightarrow> store \<Rightarrow> string \<Rightarrow> string \<Rightarrow> string \<Rightarrow> pyval \<Rightarrow> pyval \<Rightarrow> pyval \<Rightarrow> pyval \<Rightarrow>
   pyval \<Rightarrow> bool \<Rightarrow> bool \<Rightarrow> run" where
  "create_library http st url server_name library_name engine display_name path location
     repository_name is_preassigned only_payload =
     (let endpoint = ''sas/servers/'' @ server_name @ ''/libraries/'' @ library_name;
          initial_params =
            [(''engine'', engine), (''displayName'', display_name), (''path'', path),
             (''location'', location), (''repositoryName'', repository_name)];
          initial_params =
            (if is_preassigned then setitem initial_params ''isPreassigned'' (PStr ''true'')
             else setitem initial_params ''isPreassigned'' (PStr ''false''))
      in make_request http st ''POST'' (assemble_url url endpoint)
           (Some initial_params) None None only_payload)"

definition delete_library ::
  "transport \<Rightarrow> store \<Rightarrow> string \<Rightarrow> string \<Rightarrow> string \<Rightarrow> pyval \<Rightarrow> bool \<Rightarrow> run" where
  "delete_library http st url server_name library_name repository_name only_payload =
     (let endpoint = ''sas/servers/'' @ server_name @ ''/libraries/'' @ library_name;
          initial_params = [(''repositoryName'', repository_name)]
      in make_request http st ''DELETE'' (assemble_url url endpoint)
           (Some initial_params) None None only_payload)"

definition get_dataset_list ::
  "transport \<Rightarrow> store \<Rightarrow> string \<Rightarrow> string \<Rightarrow> string option \<Rightarrow> pyval \<Rightarrow> pyval \<Rightarrow> pyval \<Rightarrow>
   bool \<Rightarrow> run" where
  "get_dataset_list http st url library_name server_name repository_name server_url server_port
     only_payload =
     (let initial_params = [];
          endpoint = ''sas/libraries/'' @ library_name @ ''/datasets'';
          (endpoint, initial_params, out) =
            (case server_name of
               Some name \<Rightarrow>
                 (''sas/servers/'' @ name @ ''/libraries/'' @ library_name @ ''/datasets'',
                  [(''repositoryName'', repository_name)], [])
             | None \<Rightarrow>
                 if server_url \<noteq> PNone \<and> server_port \<noteq> PNone then
                   (endpoint,
                    setitem (setitem initial_params ''serverUrl'' server_url)
                      ''serverPort'' server_port, [])
                 else (endpoint, initial_params, [default_server_notice]))
      in after_prints out
           (make_request http st ''GET'' (assemble_url url endpoint)
              (Some initial_params) None None only_payload))"

definition get_dataset_info ::
  "transport \<Rightarrow> store \<Rightarrow> string \<Rightarrow> string \<Rightarrow> string \<Rightarrow> string option \<Rightarrow> pyval \<Rightarrow> pyval \<Rightarrow> pyval \<Rightarrow>
   bool \<Rightarrow> run" where
  "get_dataset_info http st url library_name dataset_name server_name repository_name server_url server_port
     only_payload =
     (let initial_params = [];
          endpoint = ''sas/libraries/'' @ library_name @ ''/datasets/'' @ dataset_name;
          (endpoint, initial_params, out) =
            (case server_name of
               Some name \<Rightarrow>
                 (''sas/servers/'' @ name @ ''/libraries/'' @ library_name @ ''/datasets/'' @ dataset_name,
                  [(''repositoryName'', repository_name)], [])
             | None \<Rightarrow>
                 if server_url \<noteq> PNone \<and> server_port \<noteq> PNone then
                   (endpoint,
                    setitem (setitem initial_params ''serverUrl'' server_url)
                      ''serverPort'' server_port, [])
                 else (endpoint, initial_params, [default_server_notice]))
      in after_prints out
           (make_request http st ''GET'' (assemble_url url endpoint)
              (Some initial_params) None None only_payload))"

definition retrieve_data ::
  "transport \<Rightarrow> store \<Rightarrow> string \<Rightarrow> string \<Rightarrow> string \<Rightarrow> string option \<Rightarrow> pyval \<Rightarrow> pyval \<Rightarrow> pyval \<Rightarrow>
   pyval \<Rightarrow> pyval \<Rightarrow> pyval \<Rightarrow> bool \<Rightarrow> run" where
  "retrieve_data http st url library_name dataset_name server_name repository_name server_url server_port
     limit offset filter_arg only_payload =
     (let initial_params = [(''limit'', limit), (''offset'', offset)];
          endpoint = ''sas/libraries/'' @ library_name @ ''/datasets/'' @ dataset_name @ ''/data'';
          initial_params =
            (if filter_arg \<noteq> PNone then setitem initial_params ''filter'' filter_arg
             else initial_params);
          (endpoint, initial_params, out) =
            (case server_name of
               Some name \<Rightarrow>
                 (''sas/servers/'' @ name @ ''/libraries/'' @ library_name @ ''/datasets/'' @ dataset_name @
                    ''/data'',
                  setitem initial_params ''repositoryName'' repository_name, [])
             | None \<Rightarrow>
                 if server_url \<noteq> PNone \<and> server_port \<noteq> PNone then
                   (endpoint,
                    setitem (setitem initial_params ''serverUrl'' server_url)
                      ''serverPort'' server_port, [])
                 else (endpoint, initial_params, [default_server_notice]))
      in after_prints out
           (make_request http st ''GET'' (assemble_url url endpoint)
              (Some initial_params) None None only_payload))"

definition insert_data ::
  "transport \<Rightarrow> store \<Rightarrow> string \<Rightarrow> string \<Rightarrow> string \<Rightarrow> pyval \<Rightarrow> string option \<Rightarrow> pyval \<Rightarrow> pyval \<Rightarrow> pyval \<Rightarrow>
   pyval \<Rightarrow> bool \<Rightarrow> run" where
  "insert_data http st url library_name dataset_name json_data server_name repository_name server_url server_port
     by_key only_payload =
     (let initial_params = [];
          initial_params =
            (if by_key \<noteq> PNone then setitem initial_params ''byKey'' by_key
             else initial_params);
          endpoint = ''sas/libraries/'' @ library_name @ ''/datasets/'' @ dataset_name @ ''/data'';
          (endpoint, initial_params, out) =
            (case server_name of
               Some name \<Rightarrow>
                 (''sas/servers/'' @ name @ ''/libraries/'' @ library_name @ ''/datasets/'' @ dataset_name @
                    ''/data'',
                  setitem initial_params ''repositoryName'' repository_name, [])
             | None \<Rightarrow>
                 if server_url \<noteq> PNone \<and> server_port \<noteq> PNone then
                   (endpoint,
                    setitem (setitem initial_params ''serverUrl'' server_url)
                      ''serverPort'' server_port, [])
                 else (endpoint, initial_params, [default_server_notice]))
      in after_prints out
           (make_request http st ''PUT'' (assemble_url url endpoint)
              (Some initial_params) None (Some json_data) only_payload))"

definition replace_all_data ::
  "transport \<Rightarrow> store \<Rightarrow> string \<Rightarrow> string \<Rightarrow> string \<Rightarrow> pyval \<Rightarrow> string option \<Rightarrow> pyval \<Rightarrow> pyval \<Rightarrow> pyval \<Rightarrow>
   bool \<Rightarrow> run" where
  "replace_all_data http st url library_name dataset_name json_data server_name repository_name server_url server_port
     only_payload =
     (let initial_params = [];
          endpoint = ''sas/libraries/'' @ library_name @ ''/datasets/'' @ dataset_name @ ''/data'';
          (endpoint, initial_params, out) =
            (case server_name of
               Some name \<Rightarrow>
                 (''sas/servers/'' @ name @ ''/libraries/'' @ library_name @ ''/datasets/'' @ dataset_name @
                    ''/data'',
                  setitem initial_params ''repositoryName'' repository_name, [])
             | None \<Rightarrow>
                 if server_url \<noteq> PNone \<and> server_port \<noteq> PNone then
                   (endpoint,
                    setitem (setitem initial_params ''serverUrl'' server_url)
                      ''serverPort'' server_port, [])
                 else (endpoint, initial_params, [default_server_notice]))
      in after_prints out
           (make_request http st ''POST'' (assemble_url url endpoint)
              (Some initial_params) None (Some json_data) only_payload))"

definition delete_dataset ::
  "transport \<Rightarrow> store \<Rightarrow> string \<Rightarrow> string \<Rightarrow> string \<Rightarrow> string option \<Rightarrow> pyval \<Rightarrow> pyval \<Rightarrow> pyval \<Rightarrow>
   bool \<Rightarrow> run" where
  "delete_dataset http st url library_name dataset_name server_name repository_name server_url server_port
     only_payload =
     (let initial_params = [];
          endpoint = ''sas/libraries/'' @ library_name @ ''/datasets/'' @ dataset_name @ ''/data'';
          (endpoint, initial_params, out) =
            (case server_name of
               Some name \<Rightarrow>
                 (''sas/servers/'' @ name @ ''/libraries/'' @ library_name @ ''/datasets/'' @ dataset_name @
                    ''/data'',
                  setitem initial_params ''repositoryName'' repository_name, [])
             | None \<Rightarrow>
                 if server_url \<noteq> PNone \<and> server_port \<noteq> PNone then
                   (endpoint,
                    setitem (setitem initial_params ''serverUrl'' server_url)
                      ''serverPort'' server_port, [])
                 else (endpoint, initial_params, [default_server_notice]))
      in after_prints out
           (make_request http st ''DELETE'' (assemble_url url endpoint)
              (Some initial_params) None None only_payload))"

definition find_object ::
  "transport \<Rightarrow> store \<Rightarrow> string \<Rightarrow>
   pyval \<Rightarrow> pyval \<Rightarrow> pyval \<Rightarrow> pyval \<Rightarrow> pyval
   \<Rightarrow> pyval \<Rightarrow> pyval \<Rightarrow> pyval \<Rightarrow> pyval
   \<Rightarrow> pyval \<Rightarrow> pyval \<Rightarrow> pyval \<Rightarrow> pyval
   \<Rightarrow> pyval \<Rightarrow> pyval \<Rightarrow> pyval \<Rightarrow> pyval
   \<Rightarrow> pyval \<Rightarrow> pyval \<Rightarrow> pyval \<Rightarrow>
   bool \<Rightarrow> run" where
  "find_object http st url
     repository_name location location_recursive object_id object_type public_type
     name_equals name_starts name_contains name_regex description_contains
     description_regex created_gt created_lt modified_gt modified_lt table_libref
     table_dbms include_associations include_permissions
     only_payload =
     (let endpoint = ''sas/meta/search'';
          initial_params =
            [(''repositoryName'', repository_name), (''location'', location),
             (''locationRecursive'', location_recursive), (''objectID'',
             object_id), (''objectType'', object_type), (''publicType'',
             public_type), (''nameEquals'', name_equals), (''nameStarts'',
             name_starts), (''nameContains'', name_contains), (''nameRegex'',
             name_regex), (''descriptionContains'', description_contains),
             (''descriptionRegex'', description_regex), (''createdGt'',
             created_gt), (''createdLt'', created_lt), (''modifiedGt'',
             modified_gt), (''modifiedLt'', modified_lt), (''tableLibref'',
             table_libref), (''tableDBMS'', table_dbms),
             (''includeAssociations'', include_associations),
             (''includePermissions'', include_permissions)]
      in make_request http st ''GET'' (assemble_url url endpoint)
           (Some initial_params) None None only_payload)"

text \<open>
  \<^verbatim>\<open>move_object\<close> carries this comment in the source, above its parameter dict:
  ``Error in the source code!!! Correcting it here, but when it is corrected in Java code,
  will have to flip destinationLocation and PublicType''.
\<close>

definition move_object ::
  "transport \<Rightarrow> store \<Rightarrow> string \<Rightarrow> pyval \<Rightarrow> pyval \<Rightarrow> pyval \<Rightarrow> pyval \<Rightarrow> pyval \<Rightarrow> bool \<Rightarrow> run" where
  "move_object http st url source_location source_name public_type destination_location
     repository_name only_payload =
     (let endpoint = ''sas/meta/objects/move'';
          initial_params =
            [(''sourceLocation'', source_location), (''sourceName'', source_name),
             (''destinationLocation'', public_type), (''publicType'', destination_location),
             (''repositoryName'', repository_name)]
      in make_request http st ''POST'' (assemble_url url endpoint)
           (Some initial_params) None None only_payload)"

definition delete_object ::
  "transport \<Rightarrow> store \<Rightarrow> string \<Rightarrow> pyval \<Rightarrow> pyval \<Rightarrow> pyval \<Rightarrow> pyval \<Rightarrow> bool \<Rightarrow> run" where
  "delete_object http st url source_location source_name public_type repository_name
     only_payload =
     (let endpoint = ''sas/meta/objects/delete'';
          initial_params =
            [(''sourceLocation'', source_location), (''sourceName'', source_name),
             (''publicType'', public_type), (''repositoryName'', repository_name)]
      in make_request http st ''POST'' (assemble_url url endpoint)
           (Some initial_params) None None only_payload)"

section \<open>Observing a run\<close>

text \<open>The URL and one query parameter of every request a run sent.\<close>

definition sent_urls :: "run \<Rightarrow> string list" where
  "sent_urls r = map req_url (sent r)"

definition sent_param :: "run \<Rightarrow> string \<Rightarrow> pyval option list" where
  "sent_param r k = map (\<lambda>q. map_of (req_params q) k) (sent r)"

text \<open>What the transport answered to the requests a run sent.\<close>

definition replies :: "transport \<Rightarrow> run \<Rightarrow> reply list" where
  "replies http r = map http (sent r)"

text \<open>
  The server-provided error of a response: the \<^verbatim>\<open>error\<close> field, when the body parses as
  a JSON object that has one.
\<close>

definition server_error :: "response \<Rightarrow> pyval option" where
  "server_error r =
     (case json_body r of Some (PDict d) \<Rightarrow> map_of d ''error'' | _ \<Rightarrow> None)"

text \<open>
  Modelled from the spec: the serialisation of the query-parameter mapping into the query
  string of the request, which the HTTP library does and which is not under src/. The
  specification of the request executor says of the mapping that ``None/absent values
  should be omitted rather than serialized as literal "None"'': the parameters on the wire
  are the entries whose value is not \<^verbatim>\<open>None\<close>, in the mapping's order.
\<close>

definition serialized_params :: "pydict \<Rightarrow> pydict" where
  "serialized_params d = filter (\<lambda>(k, v). v \<noteq> PNone) d"

definition wire_param :: "run \<Rightarrow> string \<Rightarrow> pyval option list" where
  "wire_param r k = map (\<lambda>q. map_of (serialized_params (req_params q)) k) (sent r)"

definition omit_none :: "pyval \<Rightarrow> pyval option" where
  "omit_none v = (if v = PNone then None else Some v)"

section \<open>Sequences of calls\<close>

text \<open>
  A caller invokes the functions of the module one after the other; each call starts in
  the store the previous one left.
\<close>

datatype call =
    Call_make_request string string "pydict option" "string option" "pyval option" bool
  | Call_get_metadata_server_config string bool
  | Call_get_license_info string bool
  | Call_get_workspace_server_list string pyval bool
  | Call_get_workspace_server_config string string pyval bool
  | Call_get_stp_server_list string pyval bool
  | Call_get_stp_server_config string string pyval bool
  | Call_execute_command string string "string option" pyval pyval pyval bool bool
  | Call_get_user_list string pyval bool
  | Call_get_configured_user_info string pyval bool
  | Call_get_user_info string string pyval bool
  | Call_get_group_list string pyval bool
  | Call_get_group_info string string pyval bool
  | Call_get_role_list string pyval bool
  | Call_get_role_info string string pyval bool
  | Call_get_library_list string "string option" pyval pyval pyval bool
  | Call_get_library_info string string "string option" pyval pyval pyval bool
  | Call_create_library string string string pyval pyval pyval pyval pyval bool bool
  | Call_delete_library string string string pyval bool
  | Call_get_dataset_list string string "string option" pyval pyval pyval bool
  | Call_get_dataset_info string string string "string option" pyval pyval pyval bool
  | Call_retrieve_data string string string "string option" pyval pyval pyval pyval pyval
      pyval bool
  | Call_insert_data string string string pyval "string option" pyval pyval pyval pyval bool
  | Call_replace_all_data string string string pyval "string option" pyval pyval pyval bool
  | Call_delete_dataset string string string "string option" pyval pyval pyval bool
  | Call_find_object string pyval pyval pyval pyval pyval pyval pyval pyval pyval pyval
      pyval pyval pyval pyval pyval pyval pyval pyval pyval pyval bool
  | Call_move_object string pyval pyval pyval pyval pyval bool
  | Call_delete_object string pyval pyval pyval pyval bool

fun exec :: "transport \<Rightarrow> store \<Rightarrow> call \<Rightarrow> run" where
  "exec http st (Call_make_request method url initial_params data json_data only_payload) =
          make_request http st method url initial_params data json_data only_payload"
| "exec http st (Call_get_metadata_server_config url only_payload) =
          get_metadata_server_config http st url only_payload"
| "exec http st (Call_get_license_info url only_payload) =
          get_license_info http st url only_payload"
| "exec http st (Call_get_workspace_server_list url repository_name only_payload) =
          get_workspace_server_list http st url repository_name only_payload"
| "exec http st (Call_get_workspace_server_config url server_name repository_name
     only_payload) =
          get_workspace_server_config http st url server_name repository_name only_payload"
| "exec http st (Call_get_stp_server_list url repository_name only_payload) =
          get_stp_server_list http st url repository_name only_payload"
| "exec http st (Call_get_stp_server_config url server_name repository_name only_payload) =
          get_stp_server_config http st url server_name repository_name only_payload"
| "exec http st (Call_execute_command url command server_name repository_name server_url
     server_port log_enabled only_payload) =
          execute_command http st url command server_name repository_name server_url
       server_port log_enabled only_payload"
| "exec http st (Call_get_user_list url repository_name only_payload) =
          get_user_list http st url repository_name only_payload"
| "exec http st (Call_get_configured_user_info url repository_name only_payload) =
          get_configured_user_info http st url repository_name only_payload"
| "exec http st (Call_get_user_info url user_name repository_name only_payload) =
          get_user_info http st url user_name repository_name only_payload"
| "exec http st (Call_get_group_list url repository_name only_payload) =
          get_group_list http st url repository_name only_payload"
| "exec http st (Call_get_group_info url group_name repository_name only_payload) =
          get_group_info http st url group_name repository_name only_payload"
| "exec http st (Call_get_role_list url repository_name only_payload) =
          get_role_list http st url repository_name only_payload"
| "exec http st (Call_get_role_info url role_name repository_name only_payload) =
          get_role_info http st url role_name repository_name only_payload"
| "exec http st (Call_get_library_list url server_name repository_name server_url
     server_port only_payload) =
          get_library_list http st url server_name repository_name server_url server_port
       only_payload"
| "exec http st (Call_get_library_info url library_name server_name repository_name
     server_url server_port only_payload) =
          get_library_info http st url library_name server_name repository_name server_url
       server_port only_payload"
| "exec http st (Call_create_library url server_name library_name engine display_name path
     location repository_name is_preassigned only_payload) =
          create_library http st url server_name library_name engine display_name path
       location repository_name is_preassigned only_payload"
| "exec http st (Call_delete_library url server_name library_name repository_name
     only_payload) =
          delete_library http st url server_name library_name repository_name only_payload"
| "exec http st (Call_get_dataset_list url library_name server_name repository_name
     server_url server_port only_payload) =
          get_dataset_list http st url library_name server_name repository_name server_url
       server_port only_payload"
| "exec http st (Call_get_dataset_info url library_name dataset_name server_name
     repository_name server_url server_port only_payload) =
          get_dataset_info http st url library_name dataset_name server_name repository_name
       server_url server_port only_payload"
| "exec http st (Call_retrieve_data url library_name dataset_name server_name
     repository_name server_url server_port limit offset filter_arg only_payload) =
          retrieve_data http st url library_name dataset_name server_name repository_name
       server_url server_port limit offset filter_arg only_payload"
| "exec http st (Call_insert_data url library_name dataset_name json_data server_name
     repository_name server_url server_port by_key only_payload) =
          insert_data http st url library_name dataset_name json_data server_name
       repository_name server_url server_port by_key only_payload"
| "exec http st (Call_replace_all_data url library_name dataset_name json_data server_name
     repository_name server_url server_port only_payload) =
          replace_all_data http st url library_name dataset_name json_data server_name
       repository_name server_url server_port only_payload"
| "exec http st (Call_delete_dataset url library_name dataset_name server_name
     repository_name server_url server_port only_payload) =
          delete_dataset http st url library_name dataset_name server_name repository_name
       server_url server_port only_payload"
| "exec http st (Call_find_object url repository_name location location_recursive object_id
     object_type public_type name_equals name_starts name_contains name_regex
     description_contains description_regex created_gt created_lt modified_gt modified_lt
     table_libref table_dbms include_associations include_permissions only_payload) =
          find_object http st url repository_name location location_recursive object_id
       object_type public_type name_equals name_starts name_contains name_regex
       description_contains description_regex created_gt created_lt modified_gt modified_lt
       table_libref table_dbms include_associations include_permissions only_payload"
| "exec http st (Call_move_object url source_location source_name public_type
     destination_location repository_name only_payload) =
          move_object http st url source_location source_name public_type
       destination_location repository_name only_payload"
| "exec http st (Call_delete_object url source_location source_name public_type
     repository_name only_payload) =
          delete_object http st url source_location source_name public_type repository_name
       only_payload"

fun exec_all :: "transport \<Rightarrow> store \<Rightarrow> call list \<Rightarrow> store" where
  "exec_all http st [] = st"
| "exec_all http st (c # cs) = exec_all http (store_after (exec http st c)) cs"

section \<open>Example servers\<close>

text \<open>
  Transports that answer every request in the same way: the envelope of the
  specification's example, a refused connection, a 404 with a JSON error body, a 200
  whose body is not JSON, a 200 whose JSON object has no \<^verbatim>\<open>payload\<close>, and a 300 with a
  JSON body.
\<close>

definition envelope_server :: transport where
  "envelope_server =
     (\<lambda>q. Responds \<lparr>status_code = 200,
        json_body = Some (PDict [(''status'', PInt 200), (''error'', PNone),
                                 (''payload'', PDict [(''x'', PInt 1)])])\<rparr>)"

definition refusing_server :: transport where
  "refusing_server = (\<lambda>q. Raises ''Connection refused'')"

definition not_found_server :: transport where
  "not_found_server =
     (\<lambda>q. Responds \<lparr>status_code = 404,
        json_body = Some (PDict [(''error'', PStr ''not found'')])\<rparr>)"

definition html_server :: transport where
  "html_server = (\<lambda>q. Responds \<lparr>status_code = 200, json_body = None\<rparr>)"

definition no_payload_server :: transport where
  "no_payload_server =
     (\<lambda>q. Responds \<lparr>status_code = 200,
        json_body = Some (PDict [(''status'', PInt 200), (''error'', PNone)])\<rparr>)"

definition multiple_choices_server :: transport where
  "multiple_choices_server =
     (\<lambda>q. Responds \<lparr>status_code = 300,
        json_body = Some (PDict [(''error'', PStr ''multiple choices'')])\<rparr>)"

section \<open>Basic facts\<close>

lemma sent_make_request:
  "sent (make_request http st method url initial_params data json_data only_payload) =
     [\<lparr>req_method = method, req_url = url,
       req_params = (case initial_params of None \<Rightarrow> dflt_initial_params st | Some p \<Rightarrow> p),
       req_data = (case data of None \<Rightarrow> [] | Some d \<Rightarrow> d),
       req_json = (case json_data of None \<Rightarrow> dflt_json_data st | Some j \<Rightarrow> j)\<rparr>]"
  by (simp add: make_request_def Let_def split: reply.split sum.split)

lemma sent_after_prints: "sent (after_prints ls r) = sent r"
  by (simp add: after_prints_def)

lemma map_of_setitem: "map_of (setitem d k v) = (map_of d)(k \<mapsto> v)"
  by (induction d k v rule: setitem.induct) auto

lemma store_after_make_request:
  "store_after (make_request http st method url initial_params data json_data only_payload) = st"
  by (simp add: make_request_def Let_def split: reply.split sum.split)

lemma store_after_after_prints: "store_after (after_prints ls r) = store_after r"
  by (simp add: after_prints_def)

lemma store_after_exec: "store_after (exec http st c) = st"
  by (cases c)
     (simp_all add: store_after_make_request store_after_after_prints Let_def
        get_metadata_server_config_def get_license_info_def get_workspace_server_list_def
        get_workspace_server_config_def get_stp_server_list_def get_stp_server_config_def
        execute_command_def get_user_list_def get_configured_user_info_def get_user_info_def
        get_group_list_def get_group_info_def get_role_list_def get_role_info_def
        get_library_list_def get_library_info_def create_library_def delete_library_def
        get_dataset_list_def get_dataset_info_def retrieve_data_def insert_data_def
        replace_all_data_def delete_dataset_def find_object_def move_object_def
        delete_object_def split: option.split)

lemma exec_all_store: "exec_all http st cs = st"
  by (induction cs arbitrary: st) (simp_all add: store_after_exec)

lemma replies_make_request:
  "replies http (make_request http st method url initial_params data json_data only_payload) =
     [http \<lparr>req_method = method, req_url = url,
       req_params = (case initial_params of None \<Rightarrow> dflt_initial_params st | Some p \<Rightarrow> p),
       req_data = (case data of None \<Rightarrow> [] | Some d \<Rightarrow> d),
       req_json = (case json_data of None \<Rightarrow> dflt_json_data st | Some j \<Rightarrow> j)\<rparr>]"
  by (simp add: replies_def sent_make_request)

lemma make_request_no_response:
  assumes "replies http (make_request http st method url initial_params data json_data only_payload)
             = [Raises err]"
  shows "printed (make_request http st method url initial_params data json_data only_payload) =
           [[Lit ''Other error occurred: '', Lit err]]"
    and "result (make_request http st method url initial_params data json_data only_payload) =
           Inr PNone"
proof -
  from assms have "http \<lparr>req_method = method, req_url = url,
       req_params = (case initial_params of None \<Rightarrow> dflt_initial_params st | Some p \<Rightarrow> p),
       req_data = (case data of None \<Rightarrow> [] | Some d \<Rightarrow> d),
       req_json = (case json_data of None \<Rightarrow> dflt_json_data st | Some j \<Rightarrow> j)\<rparr> = Raises err"
    by (simp add: replies_make_request)
  then show
    "printed (make_request http st method url initial_params data json_data only_payload) =
       [[Lit ''Other error occurred: '', Lit err]]"
    "result (make_request http st method url initial_params data json_data only_payload) =
       Inr PNone"
    by (simp_all add: make_request_def Let_def)
qed

lemma make_request_response:
  assumes "replies http (make_request http st method url initial_params data json_data only_payload)
             = [Responds r]"
  shows "printed (make_request http st method url initial_params data json_data only_payload) =
           (if raise_for_status r then
              [Lit ''HTTP error occurred: '', Of_exn (HTTPError (status_code r))] #
              (case response_json r of
                 Inl e \<Rightarrow> []
               | Inr j \<Rightarrow> (case getitem j ''error'' of Inl e \<Rightarrow> [] | Inr v \<Rightarrow> [[Of_val v]]))
            else [[Lit ''Success!'']])"
    and "result (make_request http st method url initial_params data json_data only_payload) =
           (if raise_for_status r then
              (case response_json r of
                 Inl e \<Rightarrow> Inl e
               | Inr j \<Rightarrow> (case getitem j ''error'' of Inl e \<Rightarrow> Inl e | Inr v \<Rightarrow> Inr PNone))
            else if only_payload then
              (case response_json r of Inl e \<Rightarrow> Inl e | Inr j \<Rightarrow> getitem j ''payload'')
            else response_json r)"
proof -
  from assms have "http \<lparr>req_method = method, req_url = url,
       req_params = (case initial_params of None \<Rightarrow> dflt_initial_params st | Some p \<Rightarrow> p),
       req_data = (case data of None \<Rightarrow> [] | Some d \<Rightarrow> d),
       req_json = (case json_data of None \<Rightarrow> dflt_json_data st | Some j \<Rightarrow> j)\<rparr> = Responds r"
    by (simp add: replies_make_request)
  then show
    "printed (make_request http st method url initial_params data json_data only_payload) =
           (if raise_for_status r then
              [Lit ''HTTP error occurred: '', Of_exn (HTTPError (status_code r))] #
              (case response_json r of
                 Inl e \<Rightarrow> []
               | Inr j \<Rightarrow> (case getitem j ''error'' of Inl e \<Rightarrow> [] | Inr v \<Rightarrow> [[Of_val v]]))
            else [[Lit ''Success!'']])"
    "result (make_request http st method url initial_params data json_data only_payload) =
           (if raise_for_status r then
              (case response_json r of
                 Inl e \<Rightarrow> Inl e
               | Inr j \<Rightarrow> (case getitem j ''error'' of Inl e \<Rightarrow> Inl e | Inr v \<Rightarrow> Inr PNone))
            else if only_payload then
              (case response_json r of Inl e \<Rightarrow> Inl e | Inr j \<Rightarrow> getitem j ''payload'')
            else response_json r)"
    by (simp_all add: make_request_def Let_def split: sum.split)
qed

lemma surfaced_server_error:
  "(case response_json r of
      Inl e \<Rightarrow> []
    | Inr j \<Rightarrow> (case getitem j ''error'' of Inl e \<Rightarrow> [] | Inr v \<Rightarrow> [[Of_val v]])) =
   (case server_error r of None \<Rightarrow> [] | Some v \<Rightarrow> [[Of_val v]])"
proof (cases "json_body r")
  case None
  then show ?thesis by (simp add: response_json_def server_error_def)
next
  case (Some j)
  then show ?thesis
    by (cases j) (simp_all add: response_json_def server_error_def split: option.split)
qed

lemma map_of_serialized_params:
  "distinct (map fst d) \<Longrightarrow>
   map_of (serialized_params d) k =
     (case map_of d k of None \<Rightarrow> None | Some v \<Rightarrow> omit_none v)"
proof (induction d)
  case Nil
  then show ?case by (simp add: serialized_params_def)
next
  case (Cons a d)
  obtain k' v' where a: "a = (k', v')" by (cases a)
  from Cons.prems a have notin: "k' \<notin> fst ` set d" by simp
  have "map_of (serialized_params d) k' = None"
    using notin by (simp add: serialized_params_def map_of_eq_None_iff image_iff)
  with Cons a show ?case
    by (simp add: serialized_params_def omit_none_def)
qed

lemma printed_after_prints: "printed (after_prints ls r) = ls @ printed r"
  by (simp add: after_prints_def)

section \<open>The URL assembler and trailing whitespace\<close>

text \<open>
  Claim C1. The claim is that for every base URL and endpoint \<open>assemble_url\<close> returns
  one URL with exactly one separator \<open>/\<close> at the join point, whether or not the base
  URL already ends with one. The code looks for the separator at the end of
  \<^verbatim>\<open>url.strip()\<close> and then concatenates the unstripped \<^verbatim>\<open>url\<close>. On the two examples of
  the specification it returns \<^verbatim>\<open>"http://host/api/sas/"\<close>. On the base URL
  \<^verbatim>\<open>"http://host/api/ "\<close>, which ends with a separator and a space, it inserts nothing:
  the result is the base URL followed at once by the endpoint, although the base URL
  does not end with a separator, so the endpoint follows a space. The docstring of the
  function says that it adds the separator when it is not provided at the end of the
  URL, and that the result is ready to be used for requests.
\<close>

theorem assemble_url_trailing_space:
  "assemble_url ''http://host/api'' ''sas/'' = ''http://host/api/sas/'' \<and>
   assemble_url ''http://host/api/'' ''sas/'' = ''http://host/api/sas/'' \<and>
   assemble_url ''http://host/api/ '' ''sas/'' = ''http://host/api/ '' @ ''sas/'' \<and>
   \<not> endswith ''http://host/api/ '' ''/'' \<and>
   assemble_url ''http://host/api/ '' ''sas/'' = ''http://host/api/ sas/''"
  by (simp add: assemble_url_def endswith_def strip_def isspace_def)

section \<open>Target selection\<close>

lemma execute_command_by_name:
  "sent_urls (execute_command http st url command (Some name) repository_name server_url server_port log_enabled only_payload) =
     [assemble_url url (''sas/servers/'' @ name @ ''/cmd'')]"
  "sent_param (execute_command http st url command (Some name) repository_name server_url server_port log_enabled only_payload)
     ''repositoryName'' = [Some repository_name]"
  "sent_param (execute_command http st url command (Some name) repository_name server_url server_port log_enabled only_payload)
     ''serverUrl'' = [None]"
  "sent_param (execute_command http st url command (Some name) repository_name server_url server_port log_enabled only_payload)
     ''serverPort'' = [None]"
  by (simp_all add: execute_command_def Let_def sent_urls_def sent_param_def sent_make_request
        sent_after_prints map_of_setitem)

lemma get_library_list_by_name:
  "sent_urls (get_library_list http st url (Some name) repository_name server_url server_port only_payload) =
     [assemble_url url (''sas/servers/'' @ name @ ''/libraries'')]"
  "sent_param (get_library_list http st url (Some name) repository_name server_url server_port only_payload)
     ''repositoryName'' = [Some repository_name]"
  "sent_param (get_library_list http st url (Some name) repository_name server_url server_port only_payload)
     ''serverUrl'' = [None]"
  "sent_param (get_library_list http st url (Some name) repository_name server_url server_port only_payload)
     ''serverPort'' = [None]"
  by (simp_all add: get_library_list_def Let_def sent_urls_def sent_param_def sent_make_request
        sent_after_prints map_of_setitem)

lemma get_library_info_by_name:
  "sent_urls (get_library_info http st url library_name (Some name) repository_name server_url server_port only_payload) =
     [assemble_url url (''sas/servers/'' @ name @ ''/libraries/'' @ library_name)]"
  "sent_param (get_library_info http st url library_name (Some name) repository_name server_url server_port only_payload)
     ''repositoryName'' = [Some repository_name]"
  "sent_param (get_library_info http st url library_name (Some name) repository_name server_url server_port only_payload)
     ''serverUrl'' = [None]"
  "sent_param (get_library_info http st url library_name (Some name) repository_name server_url server_port only_payload)
     ''serverPort'' = [None]"
  by (simp_all add: get_library_info_def Let_def sent_urls_def sent_param_def sent_make_request
        sent_after_prints map_of_setitem)

lemma get_dataset_list_by_name:
  "sent_urls (get_dataset_list http st url library_name (Some name) repository_name server_url server_port only_payload) =
     [assemble_url url (''sas/servers/'' @ name @ ''/libraries/'' @ library_name @ ''/datasets'')]"
  "sent_param (get_dataset_list http st url library_name (Some name) repository_name server_url server_port only_payload)
     ''repositoryName'' = [Some repository_name]"
  "sent_param (get_dataset_list http st url library_name (Some name) repository_name server_url server_port only_payload)
     ''serverUrl'' = [None]"
  "sent_param (get_dataset_list http st url library_name (Some name) repository_name server_url server_port only_payload)
     ''serverPort'' = [None]"
  by (simp_all add: get_dataset_list_def Let_def sent_urls_def sent_param_def sent_make_request
        sent_after_prints map_of_setitem)

lemma get_dataset_info_by_name:
  "sent_urls (get_dataset_info http st url library_name dataset_name (Some name) repository_name server_url server_port only_payload) =
     [assemble_url url (''sas/servers/'' @ name @ ''/libraries/'' @ library_name @ ''/datasets/'' @ dataset_name)]"
  "sent_param (get_dataset_info http st url library_name dataset_name (Some name) repository_name server_url server_port only_payload)
     ''repositoryName'' = [Some repository_name]"
  "sent_param (get_dataset_info http st url library_name dataset_name (Some name) repository_name server_url server_port only_payload)
     ''serverUrl'' = [None]"
  "sent_param (get_dataset_info http st url library_name dataset_name (Some name) repository_name server_url server_port only_payload)
     ''serverPort'' = [None]"
  by (simp_all add: get_dataset_info_def Let_def sent_urls_def sent_param_def sent_make_request
        sent_after_prints map_of_setitem)

lemma retrieve_data_by_name:
  "sent_urls (retrieve_data http st url library_name dataset_name (Some name) repository_name server_url server_port limit offset filter_arg only_payload) =
     [assemble_url url (''sas/servers/'' @ name @ ''/libraries/'' @ library_name @ ''/datasets/'' @ dataset_name @ ''/data'')]"
  "sent_param (retrieve_data http st url library_name dataset_name (Some name) repository_name server_url server_port limit offset filter_arg only_payload)
     ''repositoryName'' = [Some repository_name]"
  "sent_param (retrieve_data http st url library_name dataset_name (Some name) repository_name server_url server_port limit offset filter_arg only_payload)
     ''serverUrl'' = [None]"
  "sent_param (retrieve_data http st url library_name dataset_name (Some name) repository_name server_url server_port limit offset filter_arg only_payload)
     ''serverPort'' = [None]"
  by (simp_all add: retrieve_data_def Let_def sent_urls_def sent_param_def sent_make_request
        sent_after_prints map_of_setitem)

lemma insert_data_by_name:
  "sent_urls (insert_data http st url library_name dataset_name json_data (Some name) repository_name server_url server_port by_key only_payload) =
     [assemble_url url (''sas/servers/'' @ name @ ''/libraries/'' @ library_name @ ''/datasets/'' @ dataset_name @ ''/data'')]"
  "sent_param (insert_data http st url library_name dataset_name json_data (Some name) repository_name server_url server_port by_key only_payload)
     ''repositoryName'' = [Some repository_name]"
  "sent_param (insert_data http st url library_name dataset_name json_data (Some name) repository_name server_url server_port by_key only_payload)
     ''serverUrl'' = [None]"
  "sent_param (insert_data http st url library_name dataset_name json_data (Some name) repository_name server_url server_port by_key only_payload)
     ''serverPort'' = [None]"
  by (simp_all add: insert_data_def Let_def sent_urls_def sent_param_def sent_make_request
        sent_after_prints map_of_setitem)

lemma replace_all_data_by_name:
  "sent_urls (replace_all_data http st url library_name dataset_name json_data (Some name) repository_name server_url server_port only_payload) =
     [assemble_url url (''sas/servers/'' @ name @ ''/libraries/'' @ library_name @ ''/datasets/'' @ dataset_name @ ''/data'')]"
  "sent_param (replace_all_data http st url library_name dataset_name json_data (Some name) repository_name server_url server_port only_payload)
     ''repositoryName'' = [Some repository_name]"
  "sent_param (replace_all_data http st url library_name dataset_name json_data (Some name) repository_name server_url server_port only_payload)
     ''serverUrl'' = [None]"
  "sent_param (replace_all_data http st url library_name dataset_name json_data (Some name) repository_name server_url server_port only_payload)
     ''serverPort'' = [None]"
  by (simp_all add: replace_all_data_def Let_def sent_urls_def sent_param_def sent_make_request
        sent_after_prints map_of_setitem)

lemma delete_dataset_by_name:
  "sent_urls (delete_dataset http st url library_name dataset_name (Some name) repository_name server_url server_port only_payload) =
     [assemble_url url (''sas/servers/'' @ name @ ''/libraries/'' @ library_name @ ''/datasets/'' @ dataset_name @ ''/data'')]"
  "sent_param (delete_dataset http st url library_name dataset_name (Some name) repository_name server_url server_port only_payload)
     ''repositoryName'' = [Some repository_name]"
  "sent_param (delete_dataset http st url library_name dataset_name (Some name) repository_name server_url server_port only_payload)
     ''serverUrl'' = [None]"
  "sent_param (delete_dataset http st url library_name dataset_name (Some name) repository_name server_url server_port only_payload)
     ''serverPort'' = [None]"
  by (simp_all add: delete_dataset_def Let_def sent_urls_def sent_param_def sent_make_request
        sent_after_prints map_of_setitem)

text \<open>
  Claim C2. In each of the nine target-scoped endpoint functions, when \<^verbatim>\<open>server_name\<close>
  is given, the request goes to the path under \<^verbatim>\<open>sas/servers/<server_name>/\<close>, carries
  \<^verbatim>\<open>repositoryName\<close> and carries neither \<^verbatim>\<open>serverUrl\<close> nor \<^verbatim>\<open>serverPort\<close>, whatever
  \<^verbatim>\<open>server_url\<close> and \<^verbatim>\<open>server_port\<close> are, so also when both are set: the name wins.
\<close>

theorem server_name_wins:
  "(let r = execute_command http st url command (Some name) repository_name server_url server_port log_enabled only_payload
    in sent_urls r = [assemble_url url (''sas/servers/'' @ name @ ''/cmd'')] \<and>
       sent_param r ''repositoryName'' = [Some repository_name] \<and>
       sent_param r ''serverUrl'' = [None] \<and> sent_param r ''serverPort'' = [None]) \<and>
   (let r = get_library_list http st url (Some name) repository_name server_url server_port only_payload
    in sent_urls r = [assemble_url url (''sas/servers/'' @ name @ ''/libraries'')] \<and>
       sent_param r ''repositoryName'' = [Some repository_name] \<and>
       sent_param r ''serverUrl'' = [None] \<and> sent_param r ''serverPort'' = [None]) \<and>
   (let r = get_library_info http st url library_name (Some name) repository_name server_url server_port only_payload
    in sent_urls r = [assemble_url url (''sas/servers/'' @ name @ ''/libraries/'' @ library_name)] \<and>
       sent_param r ''repositoryName'' = [Some repository_name] \<and>
       sent_param r ''serverUrl'' = [None] \<and> sent_param r ''serverPort'' = [None]) \<and>
   (let r = get_dataset_list http st url library_name (Some name) repository_name server_url server_port only_payload
    in sent_urls r = [assemble_url url (''sas/servers/'' @ name @ ''/libraries/'' @ library_name @ ''/datasets'')] \<and>
       sent_param r ''repositoryName'' = [Some repository_name] \<and>
       sent_param r ''serverUrl'' = [None] \<and> sent_param r ''serverPort'' = [None]) \<and>
   (let r = get_dataset_info http st url library_name dataset_name (Some name) repository_name server_url server_port only_payload
    in sent_urls r = [assemble_url url (''sas/servers/'' @ name @ ''/libraries/'' @ library_name @ ''/datasets/'' @ dataset_name)] \<and>
       sent_param r ''repositoryName'' = [Some repository_name] \<and>
       sent_param r ''serverUrl'' = [None] \<and> sent_param r ''serverPort'' = [None]) \<and>
   (let r = retrieve_data http st url library_name dataset_name (Some name) repository_name server_url server_port limit offset filter_arg only_payload
    in sent_urls r = [assemble_url url (''sas/servers/'' @ name @ ''/libraries/'' @ library_name @ ''/datasets/'' @ dataset_name @ ''/data'')] \<and>
       sent_param r ''repositoryName'' = [Some repository_name] \<and>
       sent_param r ''serverUrl'' = [None] \<and> sent_param r ''serverPort'' = [None]) \<and>
   (let r = insert_data http st url library_name dataset_name json_data (Some name) repository_name server_url server_port by_key only_payload
    in sent_urls r = [assemble_url url (''sas/servers/'' @ name @ ''/libraries/'' @ library_name @ ''/datasets/'' @ dataset_name @ ''/data'')] \<and>
       sent_param r ''repositoryName'' = [Some repository_name] \<and>
       sent_param r ''serverUrl'' = [None] \<and> sent_param r ''serverPort'' = [None]) \<and>
   (let r = replace_all_data http st url library_name dataset_name json_data (Some name) repository_name server_url server_port only_payload
    in sent_urls r = [assemble_url url (''sas/servers/'' @ name @ ''/libraries/'' @ library_name @ ''/datasets/'' @ dataset_name @ ''/data'')] \<and>
       sent_param r ''repositoryName'' = [Some repository_name] \<and>
       sent_param r ''serverUrl'' = [None] \<and> sent_param r ''serverPort'' = [None]) \<and>
   (let r = delete_dataset http st url library_name dataset_name (Some name) repository_name server_url server_port only_payload
    in sent_urls r = [assemble_url url (''sas/servers/'' @ name @ ''/libraries/'' @ library_name @ ''/datasets/'' @ dataset_name @ ''/data'')] \<and>
       sent_param r ''repositoryName'' = [Some repository_name] \<and>
       sent_param r ''serverUrl'' = [None] \<and> sent_param r ''serverPort'' = [None])"
  unfolding Let_def
  by (simp only: execute_command_by_name get_library_list_by_name get_library_info_by_name
        get_dataset_list_by_name get_dataset_info_by_name retrieve_data_by_name
        insert_data_by_name replace_all_data_by_name delete_dataset_by_name simp_thms)

section \<open>Payload truncation\<close>

text \<open>
  Claim C3. When the request succeeds (status 2xx) and the body decodes to a response
  envelope, a JSON object with the fields \<^verbatim>\<open>status\<close>, \<^verbatim>\<open>error\<close> and \<^verbatim>\<open>payload\<close>,
  \<open>make_request\<close> returns the payload field when \<^verbatim>\<open>only_payload\<close> is true and the whole
  envelope when it is false.
\<close>

theorem payload_truncation:
  assumes "replies http (make_request http st method url initial_params data json_data only_payload)
             = [Responds r]"
    and "200 \<le> status_code r" and "status_code r < 300"
    and "json_body r = Some (PDict envelope)"
    and "map_of envelope ''status'' = Some s"
    and "map_of envelope ''error'' = Some e"
    and "map_of envelope ''payload'' = Some p"
  shows "result (make_request http st method url initial_params data json_data only_payload) =
           (if only_payload then Inr p else Inr (PDict envelope))"
  using assms(2-) make_request_response(2) [OF assms(1)]
  by (simp add: raise_for_status_def response_json_def)

text \<open>
  The envelope \<^verbatim>\<open>{"status":200,"error":null,"payload":{"x":1}}\<close> of the specification:
  \<^verbatim>\<open>{"x":1}\<close> with \<^verbatim>\<open>only_payload=True\<close>, the envelope with \<^verbatim>\<open>only_payload=False\<close>.
\<close>

theorem payload_truncation_witness:
  "result (make_request envelope_server init_store ''GET'' ''http://host/api/sas/'' None None None True)
     = Inr (PDict [(''x'', PInt 1)]) \<and>
   result (make_request envelope_server init_store ''GET'' ''http://host/api/sas/'' None None None False)
     = Inr (PDict [(''status'', PInt 200), (''error'', PNone), (''payload'', PDict [(''x'', PInt 1)])])"
  using payload_truncation [of envelope_server init_store "''GET''" "''http://host/api/sas/''"
          None None None True "\<lparr>status_code = 200,
        json_body = Some (PDict [(''status'', PInt 200), (''error'', PNone),
                                 (''payload'', PDict [(''x'', PInt 1)])])\<rparr>"
          "[(''status'', PInt 200), (''error'', PNone), (''payload'', PDict [(''x'', PInt 1)])]"
          "PInt 200" PNone "PDict [(''x'', PInt 1)]"]
        payload_truncation [of envelope_server init_store "''GET''" "''http://host/api/sas/''"
          None None None False "\<lparr>status_code = 200,
        json_body = Some (PDict [(''status'', PInt 200), (''error'', PNone),
                                 (''payload'', PDict [(''x'', PInt 1)])])\<rparr>"
          "[(''status'', PInt 200), (''error'', PNone), (''payload'', PDict [(''x'', PInt 1)])]"
          "PInt 200" PNone "PDict [(''x'', PInt 1)]"]
  by (simp add: replies_make_request envelope_server_def)


section \<open>Failures\<close>

text \<open>
  Claim C4, as amended. A transport failure (no response received) and an HTTP failure
  (status 4xx or 5xx) whose body is a JSON object with an \<^verbatim>\<open>error\<close> field are caught and
  logged, and \<open>make_request\<close> returns \<^verbatim>\<open>None\<close>. A malformed response (status 2xx, but the
  body is not valid JSON, or with \<^verbatim>\<open>only_payload\<close> the JSON object has no \<^verbatim>\<open>payload\<close>
  field) is not caught: the decoding runs in the \<^verbatim>\<open>else\<close> block of the \<^verbatim>\<open>try\<close>
  statement, after \<^verbatim>\<open>Success!\<close> is printed, and its exception reaches the caller.
\<close>

theorem failures_caught_or_raised:
  "(let r = make_request http st method url initial_params data json_data only_payload
    in (replies http r = [Raises err] \<longrightarrow>
          result r = Inr PNone \<and> printed r = [[Lit ''Other error occurred: '', Lit err]]) \<and>
       (replies http r = [Responds resp] \<and> 400 \<le> status_code resp \<and> status_code resp < 600 \<and>
        json_body resp = Some (PDict d) \<and> map_of d ''error'' = Some v \<longrightarrow>
          result r = Inr PNone \<and>
          printed r = [[Lit ''HTTP error occurred: '', Of_exn (HTTPError (status_code resp))],
                       [Of_val v]]) \<and>
       (replies http r = [Responds resp] \<and> 200 \<le> status_code resp \<and> status_code resp < 300 \<and>
        json_body resp = None \<longrightarrow>
          result r = Inl JSONDecodeError \<and> printed r = [[Lit ''Success!'']]) \<and>
       (replies http r = [Responds resp] \<and> 200 \<le> status_code resp \<and> status_code resp < 300 \<and>
        json_body resp = Some (PDict d) \<and> map_of d ''payload'' = None \<and> only_payload \<longrightarrow>
          result r = Inl (KeyError ''payload'') \<and> printed r = [[Lit ''Success!'']]))"
proof -
  let ?r = "make_request http st method url initial_params data json_data only_payload"
  have a: "replies http ?r = [Raises err] \<longrightarrow>
          result ?r = Inr PNone \<and> printed ?r = [[Lit ''Other error occurred: '', Lit err]]"
    using make_request_no_response [of http st "method" url initial_params data json_data
        only_payload err]
    by simp
  have b: "replies http ?r = [Responds resp] \<and> 400 \<le> status_code resp \<and> status_code resp < 600 \<and>
        json_body resp = Some (PDict d) \<and> map_of d ''error'' = Some v \<longrightarrow>
          result ?r = Inr PNone \<and>
          printed ?r = [[Lit ''HTTP error occurred: '', Of_exn (HTTPError (status_code resp))],
                       [Of_val v]]"
    using make_request_response [of http st "method" url initial_params data json_data
        only_payload resp]
    by (simp add: raise_for_status_def response_json_def)
  have c: "replies http ?r = [Responds resp] \<and> 200 \<le> status_code resp \<and> status_code resp < 300 \<and>
        json_body resp = None \<longrightarrow>
          result ?r = Inl JSONDecodeError \<and> printed ?r = [[Lit ''Success!'']]"
    using make_request_response [of http st "method" url initial_params data json_data
        only_payload resp]
    by (simp add: raise_for_status_def response_json_def)
  have d: "replies http ?r = [Responds resp] \<and> 200 \<le> status_code resp \<and> status_code resp < 300 \<and>
        json_body resp = Some (PDict d) \<and> map_of d ''payload'' = None \<and> only_payload \<longrightarrow>
          result ?r = Inl (KeyError ''payload'') \<and> printed ?r = [[Lit ''Success!'']]"
    using make_request_response [of http st "method" url initial_params data json_data
        only_payload resp]
    by (auto simp: raise_for_status_def response_json_def)
  from a b c d show ?thesis unfolding Let_def by blast
qed

text \<open>
  One run for each of the four cases: a refused connection, a 404 with the body
  \<^verbatim>\<open>{"error":"not found"}\<close>, a 200 whose body is not JSON, and a 200 whose JSON object
  has no payload, asked for with \<^verbatim>\<open>only_payload=True\<close>.
\<close>

theorem failures_caught_or_raised_witness:
  "(let r = make_request refusing_server init_store ''GET'' ''http://host/api/sas/'' None None None False
    in replies refusing_server r = [Raises ''Connection refused''] \<and> result r = Inr PNone \<and>
       printed r = [[Lit ''Other error occurred: '', Lit ''Connection refused'']]) \<and>
   (let r = make_request not_found_server init_store ''GET'' ''http://host/api/sas/'' None None None False
    in replies not_found_server r =
         [Responds \<lparr>status_code = 404, json_body = Some (PDict [(''error'', PStr ''not found'')])\<rparr>] \<and>
       result r = Inr PNone \<and>
       printed r = [[Lit ''HTTP error occurred: '', Of_exn (HTTPError 404)],
                    [Of_val (PStr ''not found'')]]) \<and>
   (let r = make_request html_server init_store ''GET'' ''http://host/api/sas/'' None None None False
    in replies html_server r = [Responds \<lparr>status_code = 200, json_body = None\<rparr>] \<and>
       result r = Inl JSONDecodeError \<and> printed r = [[Lit ''Success!'']]) \<and>
   (let r = make_request no_payload_server init_store ''GET'' ''http://host/api/sas/'' None None None True
    in replies no_payload_server r =
         [Responds \<lparr>status_code = 200,
            json_body = Some (PDict [(''status'', PInt 200), (''error'', PNone)])\<rparr>] \<and>
       result r = Inl (KeyError ''payload'') \<and> printed r = [[Lit ''Success!'']])"
  using failures_caught_or_raised [of refusing_server init_store "''GET''"
          "''http://host/api/sas/''" None None None False "''Connection refused''"]
        failures_caught_or_raised [of not_found_server init_store "''GET''"
          "''http://host/api/sas/''" None None None False _
          "\<lparr>status_code = 404, json_body = Some (PDict [(''error'', PStr ''not found'')])\<rparr>"
          "[(''error'', PStr ''not found'')]" "PStr ''not found''"]
        failures_caught_or_raised [of html_server init_store "''GET''"
          "''http://host/api/sas/''" None None None False _
          "\<lparr>status_code = 200, json_body = None\<rparr>"]
        failures_caught_or_raised [of no_payload_server init_store "''GET''"
          "''http://host/api/sas/''" None None None True _
          "\<lparr>status_code = 200,
            json_body = Some (PDict [(''status'', PInt 200), (''error'', PNone)])\<rparr>"
          "[(''status'', PInt 200), (''error'', PNone)]"]
  by (simp add: Let_def replies_make_request refusing_server_def not_found_server_def
        html_server_def no_payload_server_def)

text \<open>
  The claim as stated fails on a malformed response: with status 200 and a body that is
  not JSON, \<open>make_request\<close> does not return \<^verbatim>\<open>None\<close>, it raises.
\<close>

theorem malformed_response_counterexample:
  "replies html_server
     (make_request html_server init_store ''GET'' ''http://host/api/sas/'' None None None False) =
     [Responds \<lparr>status_code = 200, json_body = None\<rparr>] \<and>
   result (make_request html_server init_store ''GET'' ''http://host/api/sas/'' None None None False) =
     Inl JSONDecodeError"
  by (simp add: replies_def make_request_def Let_def html_server_def
        raise_for_status_def response_json_def)

text \<open>
  Claim C5, as amended. When \<open>make_request\<close> receives a status from 400 to 599, the call
  is handled as an HTTP failure: the HTTP error is printed, followed by the
  server-provided error when the body parses as a JSON object with an \<^verbatim>\<open>error\<close> field,
  and by nothing otherwise. When no response is received, the transport error is printed.
\<close>

theorem http_failure_surfaces_server_error:
  "(let r = make_request http st method url initial_params data json_data only_payload
    in (replies http r = [Responds resp] \<and> 400 \<le> status_code resp \<and> status_code resp < 600 \<longrightarrow>
          printed r =
            [Lit ''HTTP error occurred: '', Of_exn (HTTPError (status_code resp))] #
            (case server_error resp of None \<Rightarrow> [] | Some v \<Rightarrow> [[Of_val v]])) \<and>
       (replies http r = [Raises err] \<longrightarrow>
          printed r = [[Lit ''Other error occurred: '', Lit err]]))"
  using make_request_response(1) [of http st "method" url initial_params data json_data
          only_payload resp]
        make_request_no_response(1) [of http st "method" url initial_params data json_data
          only_payload err]
  by (simp add: Let_def raise_for_status_def surfaced_server_error)

text \<open>
  The examples of the specification: a 404 with the body \<^verbatim>\<open>{"error":"not found"}\<close>
  surfaces \<^verbatim>\<open>not found\<close>, a refused connection surfaces the transport error.
\<close>

theorem http_failure_surfaces_server_error_witness:
  "(let r = make_request not_found_server init_store ''GET'' ''http://host/api/sas/'' None None None False
    in replies not_found_server r =
         [Responds \<lparr>status_code = 404, json_body = Some (PDict [(''error'', PStr ''not found'')])\<rparr>] \<and>
       printed r = [[Lit ''HTTP error occurred: '', Of_exn (HTTPError 404)],
                    [Of_val (PStr ''not found'')]]) \<and>
   (let r = make_request refusing_server init_store ''GET'' ''http://host/api/sas/'' None None None False
    in replies refusing_server r = [Raises ''Connection refused''] \<and>
       printed r = [[Lit ''Other error occurred: '', Lit ''Connection refused'']])"
  using http_failure_surfaces_server_error [of not_found_server init_store "''GET''"
          "''http://host/api/sas/''" None None None False
          "\<lparr>status_code = 404, json_body = Some (PDict [(''error'', PStr ''not found'')])\<rparr>"]
        http_failure_surfaces_server_error [of refusing_server init_store "''GET''"
          "''http://host/api/sas/''" None None None False _ "''Connection refused''"]
  by (simp add: Let_def replies_make_request refusing_server_def not_found_server_def
        server_error_def)

text \<open>
  The claim as stated, for every status outside the success range, fails at status 300:
  \<^verbatim>\<open>raise_for_status\<close> does not raise, so the call is handled as a success and the body,
  error field included, is returned as the result.
\<close>

theorem status_300_counterexample:
  "replies multiple_choices_server
     (make_request multiple_choices_server init_store ''GET'' ''http://host/api/sas/'' None None None
        False) =
     [Responds \<lparr>status_code = 300,
        json_body = Some (PDict [(''error'', PStr ''multiple choices'')])\<rparr>] \<and>
   printed (make_request multiple_choices_server init_store ''GET'' ''http://host/api/sas/'' None None
      None False) = [[Lit ''Success!'']] \<and>
   result (make_request multiple_choices_server init_store ''GET'' ''http://host/api/sas/'' None None
      None False) = Inr (PDict [(''error'', PStr ''multiple choices'')])"
  by (simp add: replies_def make_request_def Let_def multiple_choices_server_def
        raise_for_status_def response_json_def)

section \<open>The parameters of \<open>move_object\<close> and \<open>find_object\<close>\<close>

text \<open>
  Claim C6. The request of \<open>move_object\<close> carries \<^verbatim>\<open>sourceLocation\<close> and \<^verbatim>\<open>sourceName\<close>
  as given, the value of \<^verbatim>\<open>public_type\<close> under \<^verbatim>\<open>destinationLocation\<close> and the value of
  \<^verbatim>\<open>destination_location\<close> under \<^verbatim>\<open>publicType\<close>; with \<^verbatim>\<open>public_type="Table"\<close> and
  \<^verbatim>\<open>destination_location="/b"\<close> it carries \<^verbatim>\<open>destinationLocation="Table"\<close> and
  \<^verbatim>\<open>publicType="/b"\<close>.
\<close>

theorem move_object_swap:
  "(let r = move_object http st url source_location source_name public_type destination_location
              repository_name only_payload
    in sent_urls r = [assemble_url url ''sas/meta/objects/move''] \<and>
       sent_param r ''sourceLocation'' = [Some source_location] \<and>
       sent_param r ''sourceName'' = [Some source_name] \<and>
       sent_param r ''destinationLocation'' = [Some public_type] \<and>
       sent_param r ''publicType'' = [Some destination_location]) \<and>
   (let r = move_object http st url (PStr ''/a'') (PStr ''x'') (PStr ''Table'') (PStr ''/b'')
              repository_name only_payload
    in sent_param r ''destinationLocation'' = [Some (PStr ''Table'')] \<and>
       sent_param r ''publicType'' = [Some (PStr ''/b'')])"
  by (simp add: move_object_def Let_def sent_urls_def sent_param_def sent_make_request)


text \<open>
  Claim C8. In the request of \<open>find_object\<close>, every parameter whose argument is \<^verbatim>\<open>None\<close>
  is absent from the serialised query parameters, and every other parameter is there
  with its value. The client puts all twenty keys into the dict it hands to the HTTP
  library; the omission is the serialisation's, taken here from the specification.
\<close>

theorem find_object_omits_none:
  "(let r = find_object http st url
              repository_name location location_recursive object_id object_type
              public_type name_equals name_starts name_contains name_regex
              description_contains description_regex created_gt created_lt
              modified_gt modified_lt table_libref table_dbms
              include_associations include_permissions
              only_payload
    in wire_param r ''repositoryName'' = [omit_none repository_name] \<and>
       wire_param r ''location'' = [omit_none location] \<and>
       wire_param r ''locationRecursive'' = [omit_none location_recursive] \<and>
       wire_param r ''objectID'' = [omit_none object_id] \<and>
       wire_param r ''objectType'' = [omit_none object_type] \<and>
       wire_param r ''publicType'' = [omit_none public_type] \<and>
       wire_param r ''nameEquals'' = [omit_none name_equals] \<and>
       wire_param r ''nameStarts'' = [omit_none name_starts] \<and>
       wire_param r ''nameContains'' = [omit_none name_contains] \<and>
       wire_param r ''nameRegex'' = [omit_none name_regex] \<and>
       wire_param r ''descriptionContains'' = [omit_none description_contains] \<and>
       wire_param r ''descriptionRegex'' = [omit_none description_regex] \<and>
       wire_param r ''createdGt'' = [omit_none created_gt] \<and>
       wire_param r ''createdLt'' = [omit_none created_lt] \<and>
       wire_param r ''modifiedGt'' = [omit_none modified_gt] \<and>
       wire_param r ''modifiedLt'' = [omit_none modified_lt] \<and>
       wire_param r ''tableLibref'' = [omit_none table_libref] \<and>
       wire_param r ''tableDBMS'' = [omit_none table_dbms] \<and>
       wire_param r ''includeAssociations'' = [omit_none include_associations] \<and>
       wire_param r ''includePermissions'' = [omit_none include_permissions])"
proof -
  let ?d =
    "[(''repositoryName'', repository_name), (''location'', location),
      (''locationRecursive'', location_recursive), (''objectID'', object_id),
      (''objectType'', object_type), (''publicType'', public_type), (''nameEquals'',
      name_equals), (''nameStarts'', name_starts), (''nameContains'',
      name_contains), (''nameRegex'', name_regex), (''descriptionContains'',
      description_contains), (''descriptionRegex'', description_regex),
      (''createdGt'', created_gt), (''createdLt'', created_lt), (''modifiedGt'',
      modified_gt), (''modifiedLt'', modified_lt), (''tableLibref'', table_libref),
      (''tableDBMS'', table_dbms), (''includeAssociations'', include_associations),
      (''includePermissions'', include_permissions)]"
  have d: "distinct (map fst ?d)"
    by simp
  have w: "wire_param
      (find_object http st url
         repository_name location location_recursive object_id object_type
         public_type name_equals name_starts name_contains name_regex
         description_contains description_regex created_gt created_lt
         modified_gt modified_lt table_libref table_dbms include_associations
         include_permissions
         only_payload) k =
      [case map_of ?d k of None \<Rightarrow> None | Some v \<Rightarrow> omit_none v]" for k
    by (simp add: find_object_def Let_def wire_param_def sent_make_request
          map_of_serialized_params [OF d])
  show ?thesis
    unfolding Let_def by (simp add: w)
qed

section \<open>A partial URL and port pair\<close>

lemma execute_command_partial_pair:
  assumes "(server_url = PNone) \<noteq> (server_port = PNone)"
  shows "execute_command http st url command None repository_name server_url server_port
           log_enabled only_payload =
         execute_command http st url command None repository_name PNone PNone log_enabled
           only_payload"
    and "sent_urls (execute_command http st url command None repository_name server_url server_port
         log_enabled only_payload) =
         [assemble_url url (''sas/cmd'')]"
    and "sent_param (execute_command http st url command None repository_name server_url server_port
         log_enabled only_payload)
           ''serverUrl'' = [None]"
    and "sent_param (execute_command http st url command None repository_name server_url server_port
         log_enabled only_payload)
           ''serverPort'' = [None]"
    and "take 1 (printed (execute_command http st url command None repository_name server_url server_port
         log_enabled only_payload)) =
         [default_server_notice]"
  using assms
  by (auto simp: execute_command_def Let_def sent_urls_def sent_param_def sent_make_request
        sent_after_prints printed_after_prints map_of_setitem)

lemma get_library_list_partial_pair:
  assumes "(server_url = PNone) \<noteq> (server_port = PNone)"
  shows "get_library_list http st url None repository_name server_url server_port
           only_payload =
         get_library_list http st url None repository_name PNone PNone only_payload"
    and "sent_urls (get_library_list http st url None repository_name server_url server_port
         only_payload) =
         [assemble_url url (''sas/libraries'')]"
    and "sent_param (get_library_list http st url None repository_name server_url server_port
         only_payload)
           ''serverUrl'' = [None]"
    and "sent_param (get_library_list http st url None repository_name server_url server_port
         only_payload)
           ''serverPort'' = [None]"
    and "take 1 (printed (get_library_list http st url None repository_name server_url server_port
         only_payload)) =
         [default_server_notice]"
  using assms
  by (auto simp: get_library_list_def Let_def sent_urls_def sent_param_def sent_make_request
        sent_after_prints printed_after_prints map_of_setitem)

lemma get_library_info_partial_pair:
  assumes "(server_url = PNone) \<noteq> (server_port = PNone)"
  shows "get_library_info http st url library_name None repository_name server_url
           server_port only_payload =
         get_library_info http st url library_name None repository_name PNone PNone
           only_payload"
    and "sent_urls (get_library_info http st url library_name None repository_name server_url
         server_port only_payload) =
         [assemble_url url (''sas/libraries/'' @ library_name)]"
    and "sent_param (get_library_info http st url library_name None repository_name server_url
         server_port only_payload)
           ''serverUrl'' = [None]"
    and "sent_param (get_library_info http st url library_name None repository_name server_url
         server_port only_payload)
           ''serverPort'' = [None]"
    and "take 1 (printed (get_library_info http st url library_name None repository_name server_url
         server_port only_payload)) =
         [default_server_notice]"
  using assms
  by (auto simp: get_library_info_def Let_def sent_urls_def sent_param_def sent_make_request
        sent_after_prints printed_after_prints map_of_setitem)

lemma get_dataset_list_partial_pair:
  assumes "(server_url = PNone) \<noteq> (server_port = PNone)"
  shows "get_dataset_list http st url library_name None repository_name server_url
           server_port only_payload =
         get_dataset_list http st url library_name None repository_name PNone PNone
           only_payload"
    and "sent_urls (get_dataset_list http st url library_name None repository_name server_url
         server_port only_payload) =
         [assemble_url url (''sas/libraries/'' @ library_name @ ''/datasets'')]"
    and "sent_param (get_dataset_list http st url library_name None repository_name server_url
         server_port only_payload)
           ''serverUrl'' = [None]"
    and "sent_param (get_dataset_list http st url library_name None repository_name server_url
         server_port only_payload)
           ''serverPort'' = [None]"
    and "take 1 (printed (get_dataset_list http st url library_name None repository_name server_url
         server_port only_payload)) =
         [default_server_notice]"
  using assms
  by (auto simp: get_dataset_list_def Let_def sent_urls_def sent_param_def sent_make_request
        sent_after_prints printed_after_prints map_of_setitem)

lemma get_dataset_info_partial_pair:
  assumes "(server_url = PNone) \<noteq> (server_port = PNone)"
  shows "get_dataset_info http st url library_name dataset_name None repository_name
           server_url server_port only_payload =
         get_dataset_info http st url library_name dataset_name None repository_name PNone
           PNone only_payload"
    and "sent_urls (get_dataset_info http st url library_name dataset_name None repository_name
         server_url server_port only_payload) =
         [assemble_url url (''sas/libraries/'' @ library_name @ ''/datasets/'' @ dataset_name)]"
    and "sent_param (get_dataset_info http st url library_name dataset_name None repository_name
         server_url server_port only_payload)
           ''serverUrl'' = [None]"
    and "sent_param (get_dataset_info http st url library_name dataset_name None repository_name
         server_url server_port only_payload)
           ''serverPort'' = [None]"
    and "take 1 (printed (get_dataset_info http st url library_name dataset_name None repository_name
         server_url server_port only_payload)) =
         [default_server_notice]"
  using assms
  by (auto simp: get_dataset_info_def Let_def sent_urls_def sent_param_def sent_make_request
        sent_after_prints printed_after_prints map_of_setitem)

lemma retrieve_data_partial_pair:
  assumes "(server_url = PNone) \<noteq> (server_port = PNone)"
  shows "retrieve_data http st url library_name dataset_name None repository_name server_url
           server_port limit offset filter_arg only_payload =
         retrieve_data http st url library_name dataset_name None repository_name PNone PNone
           limit offset filter_arg only_payload"
    and "sent_urls (retrieve_data http st url library_name dataset_name None repository_name server_url
         server_port limit offset filter_arg only_payload) =
         [assemble_url url (''sas/libraries/'' @ library_name @ ''/datasets/'' @ dataset_name @ ''/data'')]"
    and "sent_param (retrieve_data http st url library_name dataset_name None repository_name server_url
         server_port limit offset filter_arg only_payload)
           ''serverUrl'' = [None]"
    and "sent_param (retrieve_data http st url library_name dataset_name None repository_name server_url
         server_port limit offset filter_arg only_payload)
           ''serverPort'' = [None]"
    and "take 1 (printed (retrieve_data http st url library_name dataset_name None repository_name server_url
         server_port limit offset filter_arg only_payload)) =
         [default_server_notice]"
  using assms
  by (auto simp: retrieve_data_def Let_def sent_urls_def sent_param_def sent_make_request
        sent_after_prints printed_after_prints map_of_setitem)

lemma insert_data_partial_pair:
  assumes "(server_url = PNone) \<noteq> (server_port = PNone)"
  shows "insert_data http st url library_name dataset_name json_data None repository_name
           server_url server_port by_key only_payload =
         insert_data http st url library_name dataset_name json_data None repository_name
           PNone PNone by_key only_payload"
    and "sent_urls (insert_data http st url library_name dataset_name json_data None repository_name
         server_url server_port by_key only_payload) =
         [assemble_url url (''sas/libraries/'' @ library_name @ ''/datasets/'' @ dataset_name @ ''/data'')]"
    and "sent_param (insert_data http st url library_name dataset_name json_data None repository_name
         server_url server_port by_key only_payload)
           ''serverUrl'' = [None]"
    and "sent_param (insert_data http st url library_name dataset_name json_data None repository_name
         server_url server_port by_key only_payload)
           ''serverPort'' = [None]"
    and "take 1 (printed (insert_data http st url library_name dataset_name json_data None repository_name
         server_url server_port by_key only_payload)) =
         [default_server_notice]"
  using assms
  by (auto simp: insert_data_def Let_def sent_urls_def sent_param_def sent_make_request
        sent_after_prints printed_after_prints map_of_setitem)

lemma replace_all_data_partial_pair:
  assumes "(server_url = PNone) \<noteq> (server_port = PNone)"
  shows "replace_all_data http st url library_name dataset_name json_data None
           repository_name server_url server_port only_payload =
         replace_all_data http st url library_name dataset_name json_data None
           repository_name PNone PNone only_payload"
    and "sent_urls (replace_all_data http st url library_name dataset_name json_data None
         repository_name server_url server_port only_payload) =
         [assemble_url url (''sas/libraries/'' @ library_name @ ''/datasets/'' @ dataset_name @ ''/data'')]"
    and "sent_param (replace_all_data http st url library_name dataset_name json_data None
         repository_name server_url server_port only_payload)
           ''serverUrl'' = [None]"
    and "sent_param (replace_all_data http st url library_name dataset_name json_data None
         repository_name server_url server_port only_payload)
           ''serverPort'' = [None]"
    and "take 1 (printed (replace_all_data http st url library_name dataset_name json_data None
         repository_name server_url server_port only_payload)) =
         [default_server_notice]"
  using assms
  by (auto simp: replace_all_data_def Let_def sent_urls_def sent_param_def sent_make_request
        sent_after_prints printed_after_prints map_of_setitem)

lemma delete_dataset_partial_pair:
  assumes "(server_url = PNone) \<noteq> (server_port = PNone)"
  shows "delete_dataset http st url library_name dataset_name None repository_name server_url
           server_port only_payload =
         delete_dataset http st url library_name dataset_name None repository_name PNone
           PNone only_payload"
    and "sent_urls (delete_dataset http st url library_name dataset_name None repository_name server_url
         server_port only_payload) =
         [assemble_url url (''sas/libraries/'' @ library_name @ ''/datasets/'' @ dataset_name @ ''/data'')]"
    and "sent_param (delete_dataset http st url library_name dataset_name None repository_name server_url
         server_port only_payload)
           ''serverUrl'' = [None]"
    and "sent_param (delete_dataset http st url library_name dataset_name None repository_name server_url
         server_port only_payload)
           ''serverPort'' = [None]"
    and "take 1 (printed (delete_dataset http st url library_name dataset_name None repository_name server_url
         server_port only_payload)) =
         [default_server_notice]"
  using assms
  by (auto simp: delete_dataset_def Let_def sent_urls_def sent_param_def sent_make_request
        sent_after_prints printed_after_prints map_of_setitem)

text \<open>
  Claim C9. In each of the nine target-scoped endpoint functions, when \<^verbatim>\<open>server_name\<close>
  is \<^verbatim>\<open>None\<close> and exactly one of \<^verbatim>\<open>server_url\<close> and \<^verbatim>\<open>server_port\<close> is given, the call
  is the call with neither of them: the request goes to the unscoped path, carries
  neither \<^verbatim>\<open>serverUrl\<close> nor \<^verbatim>\<open>serverPort\<close>, and the function prints the notice about the
  default server before it calls \<open>make_request\<close>.
\<close>

theorem partial_pair_falls_to_default:
  assumes "(server_url = PNone) \<noteq> (server_port = PNone)"
  shows
   "(let r = execute_command http st url command None repository_name server_url server_port
               log_enabled only_payload
     in r = execute_command http st url command None repository_name PNone PNone log_enabled
              only_payload \<and>
        sent_urls r = [assemble_url url (''sas/cmd'')] \<and>
        sent_param r ''serverUrl'' = [None] \<and> sent_param r ''serverPort'' = [None] \<and>
        take 1 (printed r) = [default_server_notice]) \<and>
    (let r = get_library_list http st url None repository_name server_url server_port
               only_payload
     in r = get_library_list http st url None repository_name PNone PNone only_payload \<and>
        sent_urls r = [assemble_url url (''sas/libraries'')] \<and>
        sent_param r ''serverUrl'' = [None] \<and> sent_param r ''serverPort'' = [None] \<and>
        take 1 (printed r) = [default_server_notice]) \<and>
    (let r = get_library_info http st url library_name None repository_name server_url
               server_port only_payload
     in r = get_library_info http st url library_name None repository_name PNone PNone
              only_payload \<and>
        sent_urls r = [assemble_url url (''sas/libraries/'' @ library_name)] \<and>
        sent_param r ''serverUrl'' = [None] \<and> sent_param r ''serverPort'' = [None] \<and>
        take 1 (printed r) = [default_server_notice]) \<and>
    (let r = get_dataset_list http st url library_name None repository_name server_url
               server_port only_payload
     in r = get_dataset_list http st url library_name None repository_name PNone PNone
              only_payload \<and>
        sent_urls r = [assemble_url url (''sas/libraries/'' @ library_name @ ''/datasets'')] \<and>
        sent_param r ''serverUrl'' = [None] \<and> sent_param r ''serverPort'' = [None] \<and>
        take 1 (printed r) = [default_server_notice]) \<and>
    (let r = get_dataset_info http st url library_name dataset_name None repository_name
               server_url server_port only_payload
     in r = get_dataset_info http st url library_name dataset_name None repository_name
              PNone PNone only_payload \<and>
        sent_urls r = [assemble_url url (''sas/libraries/'' @ library_name @ ''/datasets/'' @ dataset_name)] \<and>
        sent_param r ''serverUrl'' = [None] \<and> sent_param r ''serverPort'' = [None] \<and>
        take 1 (printed r) = [default_server_notice]) \<and>
    (let r = retrieve_data http st url library_name dataset_name None repository_name
               server_url server_port limit offset filter_arg only_payload
     in r = retrieve_data http st url library_name dataset_name None repository_name PNone
              PNone limit offset filter_arg only_payload \<and>
        sent_urls r = [assemble_url url (''sas/libraries/'' @ library_name @ ''/datasets/'' @ dataset_name @ ''/data'')] \<and>
        sent_param r ''serverUrl'' = [None] \<and> sent_param r ''serverPort'' = [None] \<and>
        take 1 (printed r) = [default_server_notice]) \<and>
    (let r = insert_data http st url library_name dataset_name json_data None repository_name
               server_url server_port by_key only_payload
     in r = insert_data http st url library_name dataset_name json_data None repository_name
              PNone PNone by_key only_payload \<and>
        sent_urls r = [assemble_url url (''sas/libraries/'' @ library_name @ ''/datasets/'' @ dataset_name @ ''/data'')] \<and>
        sent_param r ''serverUrl'' = [None] \<and> sent_param r ''serverPort'' = [None] \<and>
        take 1 (printed r) = [default_server_notice]) \<and>
    (let r = replace_all_data http st url library_name dataset_name json_data None
               repository_name server_url server_port only_payload
     in r = replace_all_data http st url library_name dataset_name json_data None
              repository_name PNone PNone only_payload \<and>
        sent_urls r = [assemble_url url (''sas/libraries/'' @ library_name @ ''/datasets/'' @ dataset_name @ ''/data'')] \<and>
        sent_param r ''serverUrl'' = [None] \<and> sent_param r ''serverPort'' = [None] \<and>
        take 1 (printed r) = [default_server_notice]) \<and>
    (let r = delete_dataset http st url library_name dataset_name None repository_name
               server_url server_port only_payload
     in r = delete_dataset http st url library_name dataset_name None repository_name PNone
              PNone only_payload \<and>
        sent_urls r = [assemble_url url (''sas/libraries/'' @ library_name @ ''/datasets/'' @ dataset_name @ ''/data'')] \<and>
        sent_param r ''serverUrl'' = [None] \<and> sent_param r ''serverPort'' = [None] \<and>
        take 1 (printed r) = [default_server_notice])"
  unfolding Let_def
  by (intro conjI)
     (rule execute_command_partial_pair [OF assms] |
      rule get_library_list_partial_pair [OF assms] |
      rule get_library_info_partial_pair [OF assms] |
      rule get_dataset_list_partial_pair [OF assms] |
      rule get_dataset_info_partial_pair [OF assms] |
      rule retrieve_data_partial_pair [OF assms] |
      rule insert_data_partial_pair [OF assms] |
      rule replace_all_data_partial_pair [OF assms] |
      rule delete_dataset_partial_pair [OF assms])+

text \<open>
  \<^verbatim>\<open>execute_command\<close> with a server URL and no port, against the example server.
\<close>

theorem partial_pair_falls_to_default_witness:
  "(PStr ''ws.host'' = PNone) \<noteq> (PNone = PNone) \<and>
   (let r = execute_command envelope_server init_store ''http://host/api'' ''proc print;'' None
              (PStr ''Foundation'') (PStr ''ws.host'') PNone True False
    in r = execute_command envelope_server init_store ''http://host/api'' ''proc print;'' None
             (PStr ''Foundation'') PNone PNone True False \<and>
       sent_urls r = [assemble_url ''http://host/api'' ''sas/cmd''] \<and>
       sent_param r ''serverUrl'' = [None] \<and> sent_param r ''serverPort'' = [None] \<and>
       take 1 (printed r) = [default_server_notice])"
proof -
  have h: "(PStr ''ws.host'' = PNone) \<noteq> (PNone = PNone)"
    by simp
  show ?thesis
    by (rule conjI [OF h partial_pair_falls_to_default [OF h, THEN conjunct1]])
qed

section \<open>No state between calls\<close>

text \<open>
  Claim C7. The GET-based listing functions are deterministic and stateless: after a
  first invocation and any sequence \<open>cs\<close> of further calls of the module, the same
  invocation against the same server (the same transport) is the same run: the same
  request, the same printed lines and the same result.
\<close>

theorem listing_calls_repeatable:
  "(let first = get_workspace_server_list http st url repository_name only_payload
    in get_workspace_server_list http (exec_all http (store_after first) cs) url
         repository_name only_payload = first) \<and>
   (let first = get_stp_server_list http st url repository_name only_payload
    in get_stp_server_list http (exec_all http (store_after first) cs) url
         repository_name only_payload = first) \<and>
   (let first = get_user_list http st url repository_name only_payload
    in get_user_list http (exec_all http (store_after first) cs) url
         repository_name only_payload = first) \<and>
   (let first = get_group_list http st url repository_name only_payload
    in get_group_list http (exec_all http (store_after first) cs) url
         repository_name only_payload = first) \<and>
   (let first = get_role_list http st url repository_name only_payload
    in get_role_list http (exec_all http (store_after first) cs) url
         repository_name only_payload = first) \<and>
   (let first = get_library_list http st url server_name repository_name server_url
                  server_port only_payload
    in get_library_list http (exec_all http (store_after first) cs) url server_name
         repository_name server_url server_port only_payload = first) \<and>
   (let first = get_dataset_list http st url library_name server_name repository_name
                  server_url server_port only_payload
    in get_dataset_list http (exec_all http (store_after first) cs) url library_name
         server_name repository_name server_url server_port only_payload = first)"
  using store_after_exec [of http st "Call_get_workspace_server_list url repository_name only_payload"]
        store_after_exec [of http st "Call_get_stp_server_list url repository_name only_payload"]
        store_after_exec [of http st "Call_get_user_list url repository_name only_payload"]
        store_after_exec [of http st "Call_get_group_list url repository_name only_payload"]
        store_after_exec [of http st "Call_get_role_list url repository_name only_payload"]
        store_after_exec [of http st "Call_get_library_list url server_name repository_name
          server_url server_port only_payload"]
        store_after_exec [of http st "Call_get_dataset_list url library_name server_name
          repository_name server_url server_port only_payload"]
  by (simp add: Let_def exec_all_store)

text \<open>
  Claim C10. \<open>make_request\<close> leaves the store, its two shared default objects, as it
  found it, and hands the arguments it is given to the HTTP library as they are. So
  after every sequence of calls of the module the defaults are still empty: a call that
  omits the arguments, as \<open>get_metadata_server_config\<close> does, sends no parameters and the
  empty list as JSON data.
\<close>

theorem defaults_never_mutated:
  "store_after (make_request http st method url initial_params data json_data only_payload) = st \<and>
   sent (make_request http st method url (Some p) (Some d) (Some j) only_payload) =
     [\<lparr>req_method = method, req_url = url, req_params = p, req_data = d, req_json = j\<rparr>] \<and>
   exec_all http st cs = st \<and>
   sent (get_metadata_server_config http (exec_all http init_store cs) url only_payload) =
     [\<lparr>req_method = ''GET'', req_url = assemble_url url ''sas/'', req_params = [],
       req_data = [], req_json = PList []\<rparr>]"
  by (simp add: store_after_make_request sent_make_request exec_all_store
        get_metadata_server_config_def init_store_def)

end
